theory Spec2Isabelle
  imports Complex_Main "HOL-Library.AList" "HOL-Library.Product_Lexorder"
begin

section \<open>Numeric cells\<close>

text \<open>
  pandas and numpy compute on IEEE doubles. The model keeps the three special values
  (\<open>NaN\<close> is also pandas' marker of a missing cell) and idealises the finite ones as
  reals: rounding, overflow and the sign of zero are not modelled.
\<close>

datatype fl = Fin real | PInf | NInf | NaN

definition inf_of_sign :: "real \<Rightarrow> fl" where
  "inf_of_sign s = (if 0 < s then PInf else if s < 0 then NInf else NaN)"

fun sign_fl :: "fl \<Rightarrow> real" where
  "sign_fl (Fin a) = sgn a"
| "sign_fl PInf = 1"
| "sign_fl NInf = - 1"
| "sign_fl NaN = 0"

fun fmul :: "fl \<Rightarrow> fl \<Rightarrow> fl" where
  "fmul NaN y = NaN"
| "fmul x NaN = NaN"
| "fmul (Fin a) (Fin b) = Fin (a * b)"
| "fmul x y = inf_of_sign (sign_fl x * sign_fl y)"

fun fdiv :: "fl \<Rightarrow> fl \<Rightarrow> fl" where
  "fdiv NaN y = NaN"
| "fdiv x NaN = NaN"
| "fdiv (Fin a) (Fin b) = (if b = 0 then inf_of_sign a else Fin (a / b))"
| "fdiv (Fin a) y = Fin 0"
| "fdiv x (Fin b) = inf_of_sign (sign_fl x * (if b < 0 then - 1 else 1))"
| "fdiv x y = NaN"

fun fadd :: "fl \<Rightarrow> fl \<Rightarrow> fl" where
  "fadd NaN y = NaN"
| "fadd x NaN = NaN"
| "fadd (Fin a) (Fin b) = Fin (a + b)"
| "fadd (Fin a) y = y"
| "fadd x (Fin b) = x"
| "fadd x y = (if x = y then x else NaN)"

fun fneg :: "fl \<Rightarrow> fl" where
  "fneg (Fin a) = Fin (- a)"
| "fneg PInf = NInf"
| "fneg NInf = PInf"
| "fneg NaN = NaN"

definition fsub :: "fl \<Rightarrow> fl \<Rightarrow> fl" where
  "fsub x y = fadd x (fneg y)"

fun fabs :: "fl \<Rightarrow> fl" where
  "fabs (Fin a) = Fin \<bar>a\<bar>"
| "fabs PInf = PInf"
| "fabs NInf = PInf"
| "fabs NaN = NaN"

fun fsqrt :: "fl \<Rightarrow> fl" where
  "fsqrt (Fin a) = (if a < 0 then NaN else Fin (sqrt a))"
| "fsqrt PInf = PInf"
| "fsqrt NInf = NaN"
| "fsqrt NaN = NaN"

text \<open>Comparisons with \<open>NaN\<close> are false.\<close>

fun fle :: "fl \<Rightarrow> fl \<Rightarrow> bool" where
  "fle NaN y = False"
| "fle x NaN = False"
| "fle NInf y = True"
| "fle x PInf = True"
| "fle (Fin a) (Fin b) = (a \<le> b)"
| "fle x y = False"

definition flt :: "fl \<Rightarrow> fl \<Rightarrow> bool" where
  "flt x y = (fle x y \<and> x \<noteq> y)"

definition fgt :: "fl \<Rightarrow> fl \<Rightarrow> bool" where
  "fgt x y = flt y x"

text \<open>\<open>np.minimum\<close> and \<open>np.maximum\<close> propagate \<open>NaN\<close>.\<close>

definition np_minimum :: "fl \<Rightarrow> fl \<Rightarrow> fl" where
  "np_minimum x y = (if x = NaN \<or> y = NaN then NaN else if fle x y then x else y)"

definition np_maximum :: "fl \<Rightarrow> fl \<Rightarrow> fl" where
  "np_maximum x y = (if x = NaN \<or> y = NaN then NaN else if fle x y then y else x)"

section \<open>Data frames, column maps, errors\<close>

text \<open>
  A cell of an uploaded table is a number (a missing cell is \<open>Num NaN\<close>) or a string.
\<close>

datatype cell = Num fl | Txt string

text \<open>
  The exceptions of the source. \<open>KeyError None\<close> is \<open>df[None]\<close>, \<open>ReError\<close> a
  pattern that does not compile. \<open>ObjectDtype\<close> stands
  for arithmetic on a column that holds strings, which pandas carries out cell by cell
  with Python's operators; that is outside the model, and no theorem states it as the
  behaviour of the code.
\<close>

datatype error = KeyError "string option" | ValueError "string list" | OverflowError
  | ReError | ObjectDtype

text \<open>
  A \<open>DataFrame\<close>: the row labels and the columns in order. Column names are unique in
  a well-formed frame and every column has one cell per row.
\<close>

record dataframe =
  index :: "nat list"
  columns :: "(string \<times> cell list) list"

definition wf_df :: "dataframe \<Rightarrow> bool" where
  "wf_df df = (distinct (map fst (columns df)) \<and>
     list_all (\<lambda>p. length (snd p) = length (index df)) (columns df))"

text \<open>
  The column map is a Python dict from canonical field to header or \<open>None\<close>:
  \<open>cols k = None\<close> is a missing key, \<open>Some None\<close> a key bound to \<open>None\<close>.
\<close>

type_synonym colmap = "string \<rightharpoonup> string option"

definition ebind :: "'e + 'a \<Rightarrow> ('a \<Rightarrow> 'e + 'b) \<Rightarrow> 'e + 'b" where
  "ebind m f = (case m of Inl e \<Rightarrow> Inl e | Inr x \<Rightarrow> f x)"

definition cols_get :: "colmap \<Rightarrow> string \<Rightarrow> string option" where
  "cols_get cols k = (case cols k of None \<Rightarrow> None | Some v \<Rightarrow> v)"

definition cols_item :: "colmap \<Rightarrow> string \<Rightarrow> error + string option" where
  "cols_item cols k = (case cols k of None \<Rightarrow> Inl (KeyError (Some k)) | Some v \<Rightarrow> Inr v)"

definition truthy :: "string option \<Rightarrow> bool" where
  "truthy v = (case v of None \<Rightarrow> False | Some s \<Rightarrow> s \<noteq> [])"

definition in_columns :: "dataframe \<Rightarrow> string \<Rightarrow> bool" where
  "in_columns df c = (c \<in> set (map fst (columns df)))"

text \<open>\<open>self.cols.get(k) and self.cols[k] in self.df.columns\<close>\<close>

definition has_col :: "colmap \<Rightarrow> dataframe \<Rightarrow> string \<Rightarrow> bool" where
  "has_col cols df k = (case cols_get cols k of None \<Rightarrow> False
     | Some c \<Rightarrow> c \<noteq> [] \<and> in_columns df c)"

definition df_item :: "dataframe \<Rightarrow> string option \<Rightarrow> error + cell list" where
  "df_item df key = (case key of None \<Rightarrow> Inl (KeyError None)
     | Some c \<Rightarrow> (case map_of (columns df) c of None \<Rightarrow> Inl (KeyError (Some c))
         | Some v \<Rightarrow> Inr v))"

definition setcol :: "dataframe \<Rightarrow> string \<Rightarrow> cell list \<Rightarrow> dataframe" where
  "setcol df c v = df\<lparr>columns := AList.update c v (columns df)\<rparr>"

fun is_num :: "cell \<Rightarrow> bool" where
  "is_num (Num x) = True"
| "is_num (Txt s) = False"

fun num_of :: "cell \<Rightarrow> fl" where
  "num_of (Num x) = x"
| "num_of (Txt s) = NaN"

definition num_col :: "cell list \<Rightarrow> error + fl list" where
  "num_col cs = (if list_all is_num cs then Inr (map num_of cs) else Inl ObjectDtype)"

text \<open>\<open>self.df[self.cols[k]]\<close> and \<open>self.df[c]\<close>, read as numbers.\<close>

definition getnum :: "dataframe \<Rightarrow> colmap \<Rightarrow> string \<Rightarrow> error + fl list" where
  "getnum df cols k = ebind (cols_item cols k) (\<lambda>c. ebind (df_item df c) num_col)"

definition getnamed :: "dataframe \<Rightarrow> string \<Rightarrow> error + fl list" where
  "getnamed df c = ebind (df_item df (Some c)) num_col"

text \<open>
  \<open>pd.to_numeric(..., errors='coerce')\<close>: a string becomes the number it spells or
  \<open>NaN\<close>. The reader of numerals is pandas' own and is a parameter.
\<close>

definition to_numeric :: "(string \<Rightarrow> fl) \<Rightarrow> cell list \<Rightarrow> cell list" where
  "to_numeric parse cs = map (\<lambda>c. case c of Num x \<Rightarrow> Num x | Txt s \<Rightarrow> Num (parse s)) cs"

section \<open>The Metric Engine (\<open>InventoryCalculations\<close>)\<close>

text \<open>
  \<open>_prepare_data\<close> adds the derived columns one after the other. Each block below is
  one assignment group of the method, in source order; a column is read from the frame
  where the source reads it from the frame, and from a local where the source keeps a
  local. The pair \<open>(df, cols)\<close> is the object's state.
\<close>

definition vec :: "fl list \<Rightarrow> cell list" where
  "vec xs = map Num xs"

text \<open>\<open>Annual_Sales\<close> and \<open>COGS\<close> (lines 47--56).\<close>

definition prepare_sales_cogs ::
  "(string \<Rightarrow> fl) \<Rightarrow> dataframe \<Rightarrow> colmap \<Rightarrow> error + dataframe" where
  "prepare_sales_cogs parse df cols =
     ebind (getnum df cols ''sales'') (\<lambda>sales.
     let df1 = setcol df ''Annual_Sales'' (vec (map (\<lambda>x. fmul x (Fin 12)) sales)) in
     if has_col cols df1 ''price'' then
       ebind (cols_item cols ''price'') (\<lambda>pc.
       ebind (df_item df1 pc) (\<lambda>praw.
       let df2 = (case pc of None \<Rightarrow> df1 | Some c \<Rightarrow> setcol df1 c (to_numeric parse praw)) in
       ebind (getnamed df2 ''Annual_Sales'') (\<lambda>annual.
       ebind (getnum df2 cols ''price'') (\<lambda>price.
       Inr (setcol df2 ''COGS'' (vec (map2 fmul annual price)))))))
     else
       ebind (getnamed df1 ''Annual_Sales'') (\<lambda>annual.
       Inr (setcol df1 ''COGS'' (vec (map (\<lambda>a. fmul a (Fin 25)) annual)))))"

text \<open>\<open>self.df.get('COGS', 25)\<close>: the column, or the scalar broadcast over the rows.\<close>

definition get_cogs_or_25 :: "dataframe \<Rightarrow> error + fl list" where
  "get_cogs_or_25 df = (case map_of (columns df) ''COGS'' of
       None \<Rightarrow> Inr (replicate (length (index df)) (Fin 25))
     | Some c \<Rightarrow> num_col c)"

text \<open>\<open>np.where(cond, a, b)\<close> on evaluated arguments, with a scalar \<open>b\<close>.\<close>

definition np_where :: "bool list \<Rightarrow> fl list \<Rightarrow> fl \<Rightarrow> fl list" where
  "np_where cond a b = map2 (\<lambda>c x. if c then x else b) cond a"

text \<open>The three turnover columns and the map entry (lines 58--74).\<close>

definition prepare_turnover :: "dataframe \<Rightarrow> colmap \<Rightarrow> error + dataframe \<times> colmap" where
  "prepare_turnover df cols =
     ebind (getnum df cols ''stock'') (\<lambda>stock.
     ebind (getnamed df ''COGS'') (\<lambda>cogs.
     ebind (get_cogs_or_25 df) (\<lambda>cogs'.
     ebind (getnamed df ''Annual_Sales'') (\<lambda>annual.
     let denom = map2 fdiv (map2 fmul stock cogs') annual;
         df1 = setcol df ''Inventory_Turnover''
                 (vec (np_where (map (\<lambda>s. fgt s (Fin 0)) stock) (map2 fdiv cogs denom) (Fin 0))) in
     ebind (getnum df1 cols ''stock'') (\<lambda>stock1.
     ebind (getnamed df1 ''Annual_Sales'') (\<lambda>annual1.
     let df2 = setcol df1 ''Simple_Turnover''
                 (vec (np_where (map (\<lambda>s. fgt s (Fin 0)) stock1) (map2 fdiv annual1 stock1) (Fin 0))) in
     ebind (getnamed df2 ''Inventory_Turnover'') (\<lambda>inv.
     ebind (getnamed df2 ''Simple_Turnover'') (\<lambda>simple.
     Inr (setcol df2 ''Final_Turnover'' (vec (map2 np_minimum inv simple)),
          cols(''turnover'' \<mapsto> Some ''Final_Turnover''))))))))))"

text \<open>\<open>Days_of_Supply\<close>, \<open>Safety_Stock\<close>, \<open>Optimal_Reorder_Point\<close> (lines 76--91).\<close>

definition safety_stock_multiplier :: real where
  "safety_stock_multiplier = 3 / 2"

definition prepare_supply :: "dataframe \<Rightarrow> colmap \<Rightarrow> error + dataframe" where
  "prepare_supply df cols =
     ebind (getnum df cols ''sales'') (\<lambda>sales.
     ebind (getnum df cols ''stock'') (\<lambda>stock.
     let df1 = setcol df ''Days_of_Supply''
                 (vec (np_where (map (\<lambda>s. fgt s (Fin 0)) sales)
                         (map (\<lambda>x. fmul x (Fin 30)) (map2 fdiv stock sales)) (Fin 365))) in
     ebind (getnum df1 cols ''sales'') (\<lambda>monthly_sales.
     let df2 = setcol df1 ''Safety_Stock''
                 (vec (map (\<lambda>m. fmul m (Fin safety_stock_multiplier)) monthly_sales));
         daily_usage = map (\<lambda>m. fdiv m (Fin 30)) monthly_sales in
     ebind (getnamed df2 ''Safety_Stock'') (\<lambda>safety.
     Inr (setcol df2 ''Optimal_Reorder_Point''
            (vec (map2 fadd (map (\<lambda>d. fmul d (Fin 14)) daily_usage) safety)))))))"

text \<open>
  \<open>EOQ\<close> and \<open>Inventory_Value\<close> (lines 93--111). The arguments of \<open>np.where\<close> are
  evaluated before the call, so \<open>self.df[self.cols['price']]\<close> is read whatever the
  condition is.
\<close>

definition prepare_eoq_value :: "dataframe \<Rightarrow> colmap \<Rightarrow> error + dataframe" where
  "prepare_eoq_value df cols =
     ebind (getnamed df ''Annual_Sales'') (\<lambda>annual_demand.
     let cond = has_col cols df ''price'' in
     ebind (getnum df cols ''price'') (\<lambda>price.
     let unit_cost = (if cond then price else map (\<lambda>_. Fin 25) price);
         holding_cost = map (\<lambda>u. fmul u (Fin (1 / 4))) unit_cost;
         df1 = setcol df ''EOQ'' (vec (map fsqrt
                 (map2 fdiv (map (\<lambda>a. fmul (fmul (Fin 2) a) (Fin 50)) annual_demand)
                            (map (\<lambda>h. np_maximum h (Fin 1)) holding_cost)))) in
     ebind (getnum df1 cols ''stock'') (\<lambda>stock.
     Inr (setcol df1 ''Inventory_Value'' (vec (map2 fmul stock unit_cost))))))"

subsection \<open>ABC analysis\<close>

text \<open>
  \<open>sort_values(ascending=False)\<close>: positions by descending value, missing values
  last. pandas' default sort leaves the order of equal values open on long columns;
  the model keeps them in row order, as pandas does on short ones.
\<close>

fun desc_key :: "fl \<Rightarrow> int \<times> real" where
  "desc_key PInf = (- 1, 0)"
| "desc_key (Fin a) = (0, - a)"
| "desc_key NInf = (1, 0)"
| "desc_key NaN = (2, 0)"

definition sort_positions_desc :: "fl list \<Rightarrow> nat list" where
  "sort_positions_desc vals = sort_key (\<lambda>i. desc_key (vals ! i)) [0..<length vals]"

text \<open>\<open>cumsum\<close> and \<open>sum\<close> skip missing values.\<close>

fun cumsum_from :: "fl \<Rightarrow> fl list \<Rightarrow> fl list" where
  "cumsum_from acc [] = []"
| "cumsum_from acc (x # xs) =
     (if x = NaN then NaN # cumsum_from acc xs
      else fadd acc x # cumsum_from (fadd acc x) xs)"

definition cumsum :: "fl list \<Rightarrow> fl list" where
  "cumsum xs = cumsum_from (Fin 0) xs"

definition nansum :: "fl list \<Rightarrow> fl" where
  "nansum xs = fold (\<lambda>x acc. fadd acc x) (filter (\<lambda>x. x \<noteq> NaN) xs) (Fin 0)"

text \<open>\<open>np.select\<close> on one row: the choice of the first condition that holds.\<close>

definition select_row :: "(bool \<times> 'a) list \<Rightarrow> 'a \<Rightarrow> 'a" where
  "select_row cs d = (case filter fst cs of [] \<Rightarrow> d | c # _ \<Rightarrow> snd c)"

definition abc_choice :: "fl \<Rightarrow> string" where
  "abc_choice p = select_row
     [(fle p (Fin 70), ''A''), (fle p (Fin 90), ''B''), (fle p (Fin 100), ''C'')] ''C''"

text \<open>
  \<open>left.merge(right, left_index=True, right_index=True, how='left')\<close> with a right frame
  of one column: every left row is paired with the right rows of the same label, in left
  order; a left row without partner gets a missing cell. A column name that both frames
  have gets the suffixes \<open>_x\<close> and \<open>_y\<close>.
\<close>

definition merge_pairs :: "nat list \<Rightarrow> nat list \<Rightarrow> (nat \<times> nat option) list" where
  "merge_pairs lidx ridx = concat (map (\<lambda>i.
       case filter (\<lambda>j. ridx ! j = lidx ! i) [0..<length ridx] of
         [] \<Rightarrow> [(i, None)]
       | js \<Rightarrow> map (\<lambda>j. (i, Some j)) js) [0..<length lidx])"

definition merge_left_index ::
  "dataframe \<Rightarrow> nat list \<Rightarrow> string \<Rightarrow> cell list \<Rightarrow> dataframe" where
  "merge_left_index df ridx rname rcol =
     (let pairs = merge_pairs (index df) ridx;
          clash = in_columns df rname in
      \<lparr> index = map (\<lambda>p. index df ! fst p) pairs,
        columns =
          map (\<lambda>(c, v). (if clash \<and> c = rname then c @ ''_x'' else c,
                          map (\<lambda>p. v ! fst p) pairs)) (columns df)
          @ [(if clash then rname @ ''_y'' else rname,
              map (\<lambda>p. case snd p of None \<Rightarrow> Num NaN | Some j \<Rightarrow> rcol ! j) pairs)] \<rparr>)"

text \<open>\<open>_calculate_abc_analysis\<close> (lines 119--147).\<close>

definition revenue_impact :: "fl list \<Rightarrow> fl list \<Rightarrow> fl list" where
  "revenue_impact annual cogs = map2 fdiv (map2 fmul annual cogs) annual"

definition calculate_abc_analysis :: "dataframe \<Rightarrow> error + dataframe" where
  "calculate_abc_analysis df =
     ebind (getnamed df ''Annual_Sales'') (\<lambda>annual.
     ebind (get_cogs_or_25 df) (\<lambda>cogs.
     let rev = revenue_impact annual cogs;
         order = sort_positions_desc rev;
         sorted_rev = map (\<lambda>i. rev ! i) order;
         cumulative_value = cumsum sorted_rev;
         total_value = nansum sorted_rev;
         cumulative_percent = map (\<lambda>c. fmul (fdiv c total_value) (Fin 100)) cumulative_value;
         abc = map abc_choice cumulative_percent in
     Inr (merge_left_index df (map (\<lambda>i. index df ! i) order) ''ABC_Class'' (map Txt abc))))"

subsection \<open>Stock status and priority score\<close>

text \<open>\<open>_classify_stock_status\<close> (lines 149--178).\<close>

definition status_choice :: "fl \<Rightarrow> fl \<Rightarrow> fl \<Rightarrow> string" where
  "status_choice current_stock reorder_level days_supply = select_row
     [(fle current_stock (fmul reorder_level (Fin (1 / 2))) \<or> fle days_supply (Fin 7), ''CRITICAL''),
      (fle current_stock reorder_level \<or> fle days_supply (Fin 15), ''LOW''),
      (fle current_stock (fmul reorder_level (Fin 2)) \<and> fle days_supply (Fin 45), ''NORMAL''),
      (fle current_stock (fmul reorder_level (Fin 3)) \<and> fle days_supply (Fin 90), ''HEALTHY'')]
     ''EXCESS''"

definition flag :: "bool \<Rightarrow> fl" where
  "flag b = Fin (if b then 1 else 0)"

definition priority_score :: "fl \<Rightarrow> fl \<Rightarrow> cell \<Rightarrow> cell \<Rightarrow> fl" where
  "priority_score days sales abc status =
     fadd (fadd (fadd (fmul (fsub (Fin 100) days) (Fin (4 / 10)))
                      (fmul sales (Fin (3 / 10))))
                (fmul (flag (abc = Txt ''A'')) (Fin 20)))
          (fmul (flag (status = Txt ''CRITICAL'')) (Fin 30))"

definition classify_stock_status :: "dataframe \<Rightarrow> colmap \<Rightarrow> error + dataframe" where
  "classify_stock_status df cols =
     ebind (if has_col cols df ''reorder'' then getnum df cols ''reorder''
            else getnamed df ''Optimal_Reorder_Point'') (\<lambda>reorder_level.
     ebind (getnum df cols ''stock'') (\<lambda>current_stock.
     ebind (getnamed df ''Days_of_Supply'') (\<lambda>days_supply.
     let df1 = setcol df ''Stock_Status''
           (map (\<lambda>(s, r, d). Txt (status_choice s r d))
                (zip current_stock (zip reorder_level days_supply))) in
     ebind (getnamed df1 ''Days_of_Supply'') (\<lambda>days.
     ebind (getnum df1 cols ''sales'') (\<lambda>sales.
     ebind (df_item df1 (Some ''ABC_Class'')) (\<lambda>abc.
     ebind (df_item df1 (Some ''Stock_Status'')) (\<lambda>status.
     Inr (setcol df1 ''Priority_Score''
            (vec (map (\<lambda>(d, s, a, t). priority_score d s a t)
                      (zip days (zip sales (zip abc status)))))))))))))"

subsection \<open>The constructor\<close>

definition prepare_data ::
  "(string \<Rightarrow> fl) \<Rightarrow> dataframe \<Rightarrow> colmap \<Rightarrow> error + dataframe \<times> colmap" where
  "prepare_data parse df cols =
     ebind (prepare_sales_cogs parse df cols) (\<lambda>df1.
     ebind (prepare_turnover df1 cols) (\<lambda>(df2, cols').
     ebind (prepare_supply df2 cols') (\<lambda>df3.
     ebind (prepare_eoq_value df3 cols') (\<lambda>df4.
     ebind (calculate_abc_analysis df4) (\<lambda>df5.
     ebind (classify_stock_status df5 cols') (\<lambda>df6.
     Inr (df6, cols')))))))"

text \<open>\<open>_validate_data\<close> (lines 23--42).\<close>

definition cols_get_default :: "colmap \<Rightarrow> string \<Rightarrow> string \<Rightarrow> string option" where
  "cols_get_default cols k d = (case cols k of None \<Rightarrow> Some d | Some v \<Rightarrow> v)"

definition fillna_cells :: "cell \<Rightarrow> cell list \<Rightarrow> cell list" where
  "fillna_cells v cs = map (\<lambda>c. if c = Num NaN then v else c) cs"

definition fillna_zero :: "string option \<Rightarrow> dataframe \<Rightarrow> dataframe" where
  "fillna_zero key df = (case key of None \<Rightarrow> df
     | Some c \<Rightarrow> (case map_of (columns df) c of None \<Rightarrow> df
         | Some v \<Rightarrow> setcol df c (fillna_cells (Num (Fin 0)) v)))"

definition retype_numeric :: "(string \<Rightarrow> fl) \<Rightarrow> colmap \<Rightarrow> string \<Rightarrow> dataframe \<Rightarrow> dataframe" where
  "retype_numeric parse cols k df =
     (if has_col cols df k then
        (case cols_get cols k of None \<Rightarrow> df
         | Some c \<Rightarrow> (case map_of (columns df) c of None \<Rightarrow> df
             | Some v \<Rightarrow> setcol df c (to_numeric parse v)))
      else df)"

definition validate_data :: "(string \<Rightarrow> fl) \<Rightarrow> dataframe \<Rightarrow> colmap \<Rightarrow> error + dataframe" where
  "validate_data parse df cols =
     (let missing_cols = filter (\<lambda>k. \<not> truthy (cols_get cols k))
                           [''stock'', ''sales'', ''name'', ''category''] in
      if missing_cols \<noteq> [] then Inl (ValueError missing_cols)
      else
        let df1 = fold (retype_numeric parse cols) [''stock'', ''sales'', ''reorder''] df in
        Inr (fold fillna_zero
               [cols_get_default cols ''stock'' ''stock'',
                cols_get_default cols ''sales'' ''sales'',
                cols_get_default cols ''reorder'' ''reorder_level''] df1))"

text \<open>\<open>__init__\<close>: the state of a constructed \<open>InventoryCalculations\<close>, or the exception.\<close>

definition init ::
  "(string \<Rightarrow> fl) \<Rightarrow> dataframe \<Rightarrow> colmap \<Rightarrow> error + dataframe \<times> colmap" where
  "init parse df cols =
     ebind (prepare_data parse df cols) (\<lambda>(df1, cols1).
     ebind (validate_data parse df1 cols1) (\<lambda>df2. Inr (df2, cols1)))"

section \<open>The Column Resolver (\<open>DataProcessor.find_column\<close>)\<close>

text \<open>
  Strings are byte lists, and headers are read as ASCII: \<open>lower\<close> changes the 26
  capital letters only (the codes \<open>0x41\<close> to \<open>0x5A\<close>, where it sets the bit \<open>0x20\<close>),
  \<open>strip\<close> removes the ASCII white space of Python's \<open>str.strip\<close>.
\<close>

fun lower_char :: "char \<Rightarrow> char" where
  "lower_char (Char b0 b1 b2 b3 b4 b5 b6 b7) =
     (if \<not> b7 \<and> b6 \<and> \<not> b5 \<and> (b0 \<or> b1 \<or> b2 \<or> b3 \<or> b4) \<and>
         \<not> (b4 \<and> b3 \<and> (b2 \<or> b1 \<and> b0))
      then Char b0 b1 b2 b3 b4 True b6 b7
      else Char b0 b1 b2 b3 b4 b5 b6 b7)"

definition lower :: "string \<Rightarrow> string" where
  "lower s = map lower_char s"

definition is_space :: "char \<Rightarrow> bool" where
  "is_space c = (c \<in> set [CHR '' '', CHR 0x09, CHR 0x0A, CHR 0x0B, CHR 0x0C, CHR 0x0D,
                           CHR 0x1C, CHR 0x1D, CHR 0x1E, CHR 0x1F])"

definition strip :: "string \<Rightarrow> string" where
  "strip s = rev (dropWhile is_space (rev (dropWhile is_space s)))"

text \<open>\<open>k in s\<close> on strings.\<close>

fun starts_with :: "string \<Rightarrow> string \<Rightarrow> bool" where
  "starts_with s [] = True"
| "starts_with [] (k # ks) = False"
| "starts_with (c # s) (k # ks) = (c = k \<and> starts_with s ks)"

fun contains :: "string \<Rightarrow> string \<Rightarrow> bool" where
  "contains k [] = (k = [])"
| "contains k (c # s) = (starts_with (c # s) k \<or> contains k s)"

text \<open>\<open>s.split(d)\<close>\<close>

fun split_on :: "char \<Rightarrow> string \<Rightarrow> string list" where
  "split_on d [] = [[]]"
| "split_on d (c # s) =
     (if c = d then [] # split_on d s
      else (case split_on d s of [] \<Rightarrow> [[c]] | w # ws \<Rightarrow> (c # w) # ws))"

text \<open>The body of the loop over the keywords: what one keyword adds to the score.\<close>

definition keyword_points :: "string \<Rightarrow> string \<Rightarrow> nat" where
  "keyword_points col_lower keyword =
     (if lower keyword = col_lower then 100
      else if contains (lower keyword) col_lower then 50
      else if list_ex (\<lambda>k. contains k col_lower) (split_on CHR ''_'' (lower keyword)) then 25
      else 0)"

definition inventory_terms :: "string list" where
  "inventory_terms = [''qty'', ''amount'', ''level'', ''count'', ''volume'', ''units'']"

definition column_score :: "string list \<Rightarrow> string \<Rightarrow> nat" where
  "column_score keywords col =
     (let col_lower = strip (lower col);
          score = fold (\<lambda>keyword score. score + keyword_points col_lower keyword) keywords 0
      in if list_ex (\<lambda>term. contains term col_lower) inventory_terms then score + 10
         else score)"

text \<open>
  The dict \<open>column_scores\<close>, in insertion order: a header enters when its score is
  positive, and a header met again keeps its place.
\<close>

definition column_scores :: "string list \<Rightarrow> string list \<Rightarrow> (string \<times> nat) list" where
  "column_scores keywords headers =
     fold (\<lambda>col d. if 0 < column_score keywords col
                    then AList.update col (column_score keywords col) d else d) headers []"

text \<open>\<open>max(d, key=d.get)\<close>: a later key replaces the best one only when it is greater.\<close>

fun max_first :: "string \<times> nat \<Rightarrow> (string \<times> nat) list \<Rightarrow> string \<times> nat" where
  "max_first best [] = best"
| "max_first best (x # xs) = max_first (if snd best < snd x then x else best) xs"

definition find_column :: "string list \<Rightarrow> string list \<Rightarrow> string option" where
  "find_column keywords headers =
     (case column_scores keywords headers of
        [] \<Rightarrow> None
      | x # xs \<Rightarrow> Some (fst (max_first x xs)))"

text \<open>\<open>detect_columns\<close>: the keyword table and the column map built from it.\<close>

definition column_keywords :: "(string \<times> string list) list" where
  "column_keywords =
    [(''name'', [''name'', ''product'', ''item'', ''description'', ''title'', ''product_name'',
                 ''item_name'', ''prod_name'', ''sku'', ''code'', ''id'']),
     (''category'', [''category'', ''catagory'', ''cat'', ''type'', ''class'', ''group'', ''segment'',
                     ''product_category'', ''item_category'', ''classification'']),
     (''stock'', [''stock'', ''inventory'', ''quantity'', ''qty'', ''current_stock'',
                  ''on_hand'', ''available'', ''balance'', ''units'', ''count'', ''level'',
                  ''current_quantity'', ''stock_level'', ''inventory_level'']),
     (''sales'', [''sales'', ''sold'', ''volume'', ''demand'', ''usage'', ''consumption'',
                  ''monthly_sales'', ''sales_volume'', ''units_sold'', ''turnover_qty'',
                  ''demand_qty'', ''usage_rate'', ''monthly_demand'']),
     (''reorder'', [''reorder'', ''reorder_level'', ''reorder_point'', ''min_stock'',
                    ''minimum'', ''safety_stock'', ''threshold'', ''trigger_level'',
                    ''min_level'', ''reorder_qty'', ''minimum_stock'']),
     (''price'', [''price'', ''cost'', ''unit_price'', ''unit_cost'', ''value'', ''amount'',
                  ''rate'', ''price_per_unit'', ''cost_per_unit'', ''unit_value'']),
     (''supplier'', [''supplier'', ''vendor'', ''source'', ''provider'', ''manufacturer'',
                     ''supplier_name'', ''vendor_name'', ''supplier_id'']),
     (''lead_time'', [''lead_time'', ''leadtime'', ''delivery_time'', ''order_time'',
                      ''procurement_time'', ''lead_days'']),
     (''max_stock'', [''max_stock'', ''maximum'', ''max_level'', ''maximum_stock'',
                      ''max_quantity'', ''upper_limit'', ''ceiling'']),
     (''turnover'', [''turnover'', ''turns'', ''rotation'', ''velocity'', ''frequency''])]"

definition detect_columns :: "string list \<Rightarrow> colmap" where
  "detect_columns headers =
     map_of (map (\<lambda>(col_type, keywords). (col_type, find_column keywords headers))
                 column_keywords)"

section \<open>The Data Cleaner (\<open>DataProcessor.clean_data\<close>)\<close>

text \<open>\<open>col_type in columns_map and columns_map[col_type] in df_clean.columns\<close>\<close>

definition mapped_col :: "colmap \<Rightarrow> dataframe \<Rightarrow> string \<Rightarrow> string option" where
  "mapped_col cols df k = (case cols k of
       Some (Some c) \<Rightarrow> if in_columns df c then Some c else None
     | _ \<Rightarrow> None)"

text \<open>\<open>Series.mean()\<close> and \<open>Series.median()\<close> skip missing values.\<close>

fun asc_key :: "fl \<Rightarrow> int \<times> real" where
  "asc_key NInf = (- 1, 0)"
| "asc_key (Fin a) = (0, a)"
| "asc_key PInf = (1, 0)"
| "asc_key NaN = (2, 0)"

definition nanmean :: "fl list \<Rightarrow> fl" where
  "nanmean xs = (let ys = filter (\<lambda>x. x \<noteq> NaN) xs in
     if ys = [] then NaN else fdiv (nansum xs) (Fin (real (length ys))))"

definition median :: "fl list \<Rightarrow> fl" where
  "median xs = (let ys = sort_key asc_key (filter (\<lambda>x. x \<noteq> NaN) xs); n = length ys in
     if n = 0 then NaN
     else if odd n then ys ! (n div 2)
     else fdiv (fadd (ys ! (n div 2 - 1)) (ys ! (n div 2))) (Fin 2))"

definition isna_all :: "fl list \<Rightarrow> bool" where
  "isna_all xs = list_all (\<lambda>x. x = NaN) xs"

definition isnull_any :: "fl list \<Rightarrow> bool" where
  "isnull_any xs = list_ex (\<lambda>x. x = NaN) xs"

definition fillna :: "fl \<Rightarrow> fl list \<Rightarrow> fl list" where
  "fillna v xs = map (\<lambda>x. if x = NaN then v else x) xs"

text \<open>
  The fill value of a numeric field (lines 247--262), on the table \<open>df_clean\<close> as it
  is when the field is processed and the coerced column \<open>xs\<close> of the field. For the
  reorder field the stock column is read from the table; the stock step has run by
  then, so that column holds numbers.
\<close>

definition fill_value :: "string \<Rightarrow> colmap \<Rightarrow> dataframe \<Rightarrow> fl list \<Rightarrow> fl" where
  "fill_value col_type cols df_clean xs =
     (if col_type = ''stock'' then (if \<not> isna_all xs then median xs else Fin 0)
      else if col_type = ''sales'' then (if \<not> isna_all xs then nanmean xs else Fin 1)
      else if col_type = ''reorder'' then
        (case cols_get cols ''stock'' of
           None \<Rightarrow> Fin 10
         | Some stock_col \<Rightarrow>
             (case (if stock_col \<noteq> [] then map_of (columns df_clean) stock_col else None) of
                None \<Rightarrow> Fin 10
              | Some stock \<Rightarrow> fmul (nanmean (map num_of stock)) (Fin (2 / 10))))
      else (if \<not> isna_all xs then median xs else Fin 0))"

text \<open>
  One round of the loop over the numeric fields (lines 228--265). The fill is the
  in-place \<open>fillna\<close> on the column of \<open>df_clean\<close>, taken to change the table as it
  does without copy-on-write.
\<close>

definition clean_numeric ::
  "(string \<Rightarrow> fl) \<Rightarrow> colmap \<Rightarrow> string \<Rightarrow> dataframe \<Rightarrow> dataframe" where
  "clean_numeric parse cols col_type df =
     (case mapped_col cols df col_type of
        None \<Rightarrow> df
      | Some col_name \<Rightarrow>
          (case map_of (columns df) col_name of
             None \<Rightarrow> df
           | Some raw \<Rightarrow>
               let coerced = map num_of (to_numeric parse raw);
                   xs = (if col_type \<in> set [''stock'', ''sales'']
                            \<and> list_ex (\<lambda>x. flt x (Fin 0)) coerced
                         then map fabs coerced else coerced);
                   df1 = setcol df col_name (vec xs)
               in if isnull_any xs
                  then setcol df1 col_name (vec (fillna (fill_value col_type cols df1 xs) xs))
                  else df1))"

text \<open>
  One round of the loop over the text fields (lines 270--291). \<open>astype(str)\<close> turns a
  missing cell into \<open>nan\<close> and a number into its decimal form, which is a parameter.
\<close>

definition astype_str :: "(fl \<Rightarrow> string) \<Rightarrow> cell \<Rightarrow> string" where
  "astype_str fmt c = (case c of Txt s \<Rightarrow> s | Num x \<Rightarrow> if x = NaN then ''nan'' else fmt x)"

definition placeholder :: "string \<Rightarrow> string" where
  "placeholder col_type =
     (if col_type = ''name'' then ''Unknown Product''
      else if col_type = ''category'' then ''Uncategorized''
      else ''Unknown Supplier'')"

definition clean_text :: "(fl \<Rightarrow> string) \<Rightarrow> colmap \<Rightarrow> string \<Rightarrow> dataframe \<Rightarrow> dataframe" where
  "clean_text fmt cols col_type df =
     (case mapped_col cols df col_type of
        None \<Rightarrow> df
      | Some col_name \<Rightarrow>
          (case map_of (columns df) col_name of
             None \<Rightarrow> df
           | Some raw \<Rightarrow>
               setcol df col_name
                 (map (\<lambda>c. let s = strip (astype_str fmt c) in
                            Txt (if s = [] \<or> s = ''nan'' then placeholder col_type else s)) raw)))"

text \<open>
  \<open>dropna(subset=critical_cols, how='all')\<close> (lines 294--299): a row goes when its cell
  is missing in every critical column.
\<close>

definition critical_cols :: "colmap \<Rightarrow> dataframe \<Rightarrow> string list" where
  "critical_cols cols df =
     filter (\<lambda>c. c \<noteq> [] \<and> in_columns df c)
       (concat (map (\<lambda>k. case cols_get cols k of None \<Rightarrow> [] | Some c \<Rightarrow> if c \<noteq> [] then [c] else [])
                    [''name'', ''stock'', ''sales'']))"

definition all_missing :: "dataframe \<Rightarrow> string list \<Rightarrow> nat \<Rightarrow> bool" where
  "all_missing df critical i =
     list_all (\<lambda>c. case map_of (columns df) c of None \<Rightarrow> True | Some v \<Rightarrow> v ! i = Num NaN) critical"

definition take_rows :: "dataframe \<Rightarrow> nat list \<Rightarrow> dataframe" where
  "take_rows df kept =
     \<lparr> index = map (\<lambda>i. index df ! i) kept,
       columns = map (\<lambda>(c, v). (c, map (\<lambda>i. v ! i) kept)) (columns df) \<rparr>"

definition dropna_all :: "dataframe \<Rightarrow> string list \<Rightarrow> dataframe" where
  "dropna_all df critical =
     take_rows df (filter (\<lambda>i. \<not> all_missing df critical i) [0..<length (index df)])"

definition clean_data ::
  "(string \<Rightarrow> fl) \<Rightarrow> (fl \<Rightarrow> string) \<Rightarrow> dataframe \<Rightarrow> colmap \<Rightarrow> dataframe" where
  "clean_data parse fmt df cols =
     (let df1 = fold (clean_numeric parse cols)
                  [''stock'', ''sales'', ''reorder'', ''price'', ''turnover''] df;
          df2 = fold (clean_text fmt cols) [''name'', ''category'', ''supplier''] df1;
          critical = critical_cols cols df2
      in if critical \<noteq> [] then dropna_all df2 critical else df2)"

section \<open>The Aggregator\<close>

text \<open>
  The frames that the aggregator derives from \<open>self.df\<close> by selecting rows are
  represented by the positions of their rows in \<open>self.df\<close>, in order.
\<close>

fun emap :: "('a \<Rightarrow> 'e + 'b) \<Rightarrow> 'a list \<Rightarrow> 'e + 'b list" where
  "emap f [] = Inr []"
| "emap f (x # xs) = ebind (f x) (\<lambda>y. ebind (emap f xs) (\<lambda>ys. Inr (y # ys)))"

text \<open>\<open>int(x)\<close>, \<open>float(x)\<close> and \<open>round(x, n)\<close> on a cell; \<open>round\<close> is to the even neighbour.\<close>

definition py_int :: "cell \<Rightarrow> error + int" where
  "py_int c = (case c of
       Txt s \<Rightarrow> Inl ObjectDtype
     | Num NaN \<Rightarrow> Inl (ValueError [''cannot convert float NaN to integer''])
     | Num (Fin a) \<Rightarrow> Inr (if 0 \<le> a then \<lfloor>a\<rfloor> else \<lceil>a\<rceil>)
     | Num _ \<Rightarrow> Inl OverflowError)"

definition py_float :: "cell \<Rightarrow> error + fl" where
  "py_float c = (case c of Txt s \<Rightarrow> Inl ObjectDtype | Num x \<Rightarrow> Inr x)"

definition round_half_even :: "real \<Rightarrow> int" where
  "round_half_even y = (let f = \<lfloor>y\<rfloor>; d = y - of_int f in
     if d < 1 / 2 then f else if 1 / 2 < d then f + 1 else if even f then f else f + 1)"

definition py_round :: "nat \<Rightarrow> fl \<Rightarrow> fl" where
  "py_round n x = (case x of Fin a \<Rightarrow> Fin (of_int (round_half_even (a * 10 ^ n)) / 10 ^ n)
     | _ \<Rightarrow> x)"

definition row_item :: "dataframe \<Rightarrow> string option \<Rightarrow> nat \<Rightarrow> error + cell" where
  "row_item df key i = ebind (df_item df key) (\<lambda>v. Inr (v ! i))"

text \<open>\<open>row.get(c, default)\<close>\<close>

definition row_get :: "dataframe \<Rightarrow> string \<Rightarrow> cell \<Rightarrow> nat \<Rightarrow> cell" where
  "row_get df c d i = (case map_of (columns df) c of None \<Rightarrow> d | Some v \<Rightarrow> v ! i)"

definition rounded :: "nat \<Rightarrow> dataframe \<Rightarrow> string \<Rightarrow> nat \<Rightarrow> error + fl" where
  "rounded n df c i =
     ebind (row_item df (Some c) i) (\<lambda>x. ebind (py_float x) (\<lambda>y. Inr (py_round n y)))"

definition mapped_item :: "dataframe \<Rightarrow> colmap \<Rightarrow> string \<Rightarrow> nat \<Rightarrow> error + cell" where
  "mapped_item df cols k i = ebind (cols_item cols k) (\<lambda>c. row_item df c i)"

subsection \<open>\<open>filter_products\<close>\<close>

record product =
  p_name :: string
  p_category :: string
  currentStock :: int
  monthlySales :: int
  p_turnover :: fl
  daysOfSupply :: fl
  p_status :: string
  abcClass :: string
  inventoryValue :: fl
  reorderPoint :: int
  suggestedOrder :: int
  priorityScore :: fl

text \<open>The dict of one row (lines 431--444); its values are evaluated in this order.\<close>

definition format_product ::
  "(fl \<Rightarrow> string) \<Rightarrow> dataframe \<Rightarrow> colmap \<Rightarrow> nat \<Rightarrow> error + product" where
  "format_product fmt df cols i =
     ebind (mapped_item df cols ''name'' i) (\<lambda>name.
     ebind (mapped_item df cols ''category'' i) (\<lambda>category.
     ebind (ebind (mapped_item df cols ''stock'' i) py_int) (\<lambda>stock.
     ebind (ebind (mapped_item df cols ''sales'' i) py_int) (\<lambda>sales.
     ebind (rounded 2 df ''Final_Turnover'' i) (\<lambda>turnover.
     ebind (rounded 1 df ''Days_of_Supply'' i) (\<lambda>days.
     ebind (row_item df (Some ''Stock_Status'') i) (\<lambda>status.
     let abc = row_get df ''ABC_Class'' (Txt ''C'') i in
     ebind (rounded 2 df ''Inventory_Value'' i) (\<lambda>inv_value.
     ebind (ebind (row_item df (Some ''Optimal_Reorder_Point'') i) py_int) (\<lambda>reorder_point.
     ebind (py_int (row_get df ''EOQ'' (Num (Fin 0)) i)) (\<lambda>eoq.
     ebind (rounded 1 df ''Priority_Score'' i) (\<lambda>score.
     Inr \<lparr> p_name = astype_str fmt name, p_category = astype_str fmt category,
           currentStock = stock, monthlySales = sales, p_turnover = turnover,
           daysOfSupply = days, p_status = astype_str fmt status,
           abcClass = astype_str fmt abc, inventoryValue = inv_value,
           reorderPoint = reorder_point, suggestedOrder = eoq,
           priorityScore = score \<rparr>)))))))))))"

definition status_mapping :: "string \<rightharpoonup> string" where
  "status_mapping = map_of [(''Critical'', ''CRITICAL''), (''Low Stock'', ''LOW''),
                            (''Healthy'', ''HEALTHY''), (''Excess'', ''EXCESS'')]"

text \<open>\<open>frame[frame[c] == value]\<close> on the rows \<open>rows\<close>.\<close>

definition rows_equal :: "dataframe \<Rightarrow> string option \<Rightarrow> string \<Rightarrow> nat list \<Rightarrow> error + nat list" where
  "rows_equal df key val rows =
     ebind (df_item df key) (\<lambda>v. Inr (filter (\<lambda>i. v ! i = Txt val) rows))"

text \<open>
  \<open>filter_products\<close> (lines 394--449). An argument is \<open>None\<close> or a string; the regular
  expression engine is a parameter that compiles a pattern, case ignored, to its search
  predicate, or fails. The name column is taken to hold strings, as the cleaner leaves
  it. The final sort is stable and descending; a missing score sorts last.
\<close>

definition filter_products ::
  "(string \<Rightarrow> (string \<Rightarrow> bool) option) \<Rightarrow> (fl \<Rightarrow> string) \<Rightarrow> dataframe \<Rightarrow> colmap \<Rightarrow>
   string option \<Rightarrow> string option \<Rightarrow> string option \<Rightarrow> string option \<Rightarrow> error + product list" where
  "filter_products re fmt df cols category status search abc_class =
     (let rows0 = [0..<length (index df)] in
      ebind (case category of
               None \<Rightarrow> Inr rows0
             | Some cat \<Rightarrow>
                 if cat \<noteq> [] \<and> cat \<notin> set [''All Categories'', ''All'']
                 then ebind (cols_item cols ''category'') (\<lambda>c. rows_equal df c cat rows0)
                 else Inr rows0) (\<lambda>rows1.
      ebind (case status of
               None \<Rightarrow> Inr rows1
             | Some st \<Rightarrow>
                 if st \<noteq> [] \<and> st \<notin> set [''All'']
                 then ebind (df_item df (Some ''Stock_Status'')) (\<lambda>v.
                        if list_ex (\<lambda>i. v ! i = Txt st) rows1
                        then rows_equal df (Some ''Stock_Status'') st rows1
                        else (case status_mapping st of
                                None \<Rightarrow> Inr rows1
                              | Some mapped_status \<Rightarrow>
                                  if mapped_status \<noteq> []
                                  then rows_equal df (Some ''Stock_Status'') mapped_status rows1
                                  else Inr rows1))
                 else Inr rows1) (\<lambda>rows2.
      ebind (case abc_class of
               None \<Rightarrow> Inr rows2
             | Some abc \<Rightarrow>
                 if abc \<noteq> [] \<and> abc \<notin> set [''All'']
                 then rows_equal df (Some ''ABC_Class'') abc rows2
                 else Inr rows2) (\<lambda>rows3.
      ebind (case search of
               None \<Rightarrow> Inr rows3
             | Some s \<Rightarrow>
                 if s \<noteq> [] \<and> strip s \<noteq> []
                 then ebind (cols_item cols ''name'') (\<lambda>c. ebind (df_item df c) (\<lambda>v.
                        case re (strip s) of
                          None \<Rightarrow> Inl ReError
                        | Some matches \<Rightarrow>
                            Inr (filter (\<lambda>i. case v ! i of Txt t \<Rightarrow> matches t | Num x \<Rightarrow> False)
                                        rows3)))
                 else Inr rows3) (\<lambda>rows4.
      ebind (emap (format_product fmt df cols) rows4) (\<lambda>results.
      Inr (sort_key (\<lambda>p. desc_key (priorityScore p)) results)))))))"

subsection \<open>\<open>get_fast_slow_movers\<close>\<close>

text \<open>
  \<open>Series.quantile(q)\<close>: linear interpolation between the order statistics of the
  present values, with numpy's two-sided formula.
\<close>

definition lerp :: "fl \<Rightarrow> fl \<Rightarrow> real \<Rightarrow> fl" where
  "lerp a b t = (let diff_b_a = fsub b a in
     if 1 / 2 \<le> t then fsub b (fmul diff_b_a (Fin (1 - t)))
     else fadd a (fmul diff_b_a (Fin t)))"

definition quantile :: "real \<Rightarrow> fl list \<Rightarrow> fl" where
  "quantile q xs = (let ys = sort_key asc_key (filter (\<lambda>x. x \<noteq> NaN) xs); n = length ys in
     if n = 0 then NaN
     else let virtual = q * real (n - 1);
              previous = nat \<lfloor>virtual\<rfloor>;
              next = min (previous + 1) (n - 1)
          in lerp (ys ! previous) (ys ! next) (virtual - real previous))"

text \<open>
  \<open>frame.nlargest(n, c)\<close> and \<open>frame.nsmallest(n, c)\<close> on the rows \<open>rows\<close>: the first
  \<open>n\<close> of them by descending (ascending) value of the column \<open>vals\<close>, the first
  occurrences among equal values, missing values last.
\<close>

definition nlargest :: "nat \<Rightarrow> fl list \<Rightarrow> nat list \<Rightarrow> nat list" where
  "nlargest n vals rows = take n (sort_key (\<lambda>i. desc_key (vals ! i)) rows)"

definition nsmallest :: "nat \<Rightarrow> fl list \<Rightarrow> nat list \<Rightarrow> nat list" where
  "nsmallest n vals rows = take n (sort_key (\<lambda>i. asc_key (vals ! i)) rows)"

record mover =
  m_name :: string
  m_category :: string
  m_turnover :: fl
  m_stock :: int
  m_monthlySales :: int
  daysSupply :: fl
  m_inventoryValue :: fl
  m_abcClass :: string
  m_status :: string
  m_priorityScore :: fl

definition format_mover ::
  "(fl \<Rightarrow> string) \<Rightarrow> dataframe \<Rightarrow> colmap \<Rightarrow> nat \<Rightarrow> error + mover" where
  "format_mover fmt df cols i =
     ebind (mapped_item df cols ''name'' i) (\<lambda>name.
     ebind (mapped_item df cols ''category'' i) (\<lambda>category.
     ebind (rounded 2 df ''Final_Turnover'' i) (\<lambda>turnover.
     ebind (ebind (mapped_item df cols ''stock'' i) py_int) (\<lambda>stock.
     ebind (ebind (mapped_item df cols ''sales'' i) py_int) (\<lambda>sales.
     ebind (rounded 1 df ''Days_of_Supply'' i) (\<lambda>days.
     ebind (rounded 2 df ''Inventory_Value'' i) (\<lambda>inv_value.
     let abc = row_get df ''ABC_Class'' (Txt ''C'') i in
     ebind (row_item df (Some ''Stock_Status'') i) (\<lambda>status.
     ebind (rounded 1 df ''Priority_Score'' i) (\<lambda>score.
     Inr \<lparr> m_name = astype_str fmt name, m_category = astype_str fmt category,
           m_turnover = turnover, m_stock = stock, m_monthlySales = sales,
           daysSupply = days, m_inventoryValue = inv_value,
           m_abcClass = astype_str fmt abc, m_status = astype_str fmt status,
           m_priorityScore = score \<rparr>)))))))))"

text \<open>\<open>format_movers(frame)\<close> with its \<open>limit=10\<close> (lines 350--366).\<close>

definition format_movers ::
  "(fl \<Rightarrow> string) \<Rightarrow> dataframe \<Rightarrow> colmap \<Rightarrow> nat list \<Rightarrow> error + mover list" where
  "format_movers fmt df cols rows =
     ebind (if rows \<noteq> [] then ebind (getnamed df ''Priority_Score'')
                                  (\<lambda>score. Inr (nlargest 10 score rows))
            else Inr rows) (\<lambda>df_sorted.
     emap (format_mover fmt df cols) df_sorted)"

record movers =
  fastMovers :: "mover list"
  slowMovers :: "mover list"
  fastMoversCount :: nat
  slowMoversCount :: nat
  fastMoverThreshold :: fl
  slowMoverThreshold :: fl

text \<open>The two cohorts, and the rows of the reported fast list in the order of the list.\<close>

definition fast_cohort :: "fl list \<Rightarrow> nat list" where
  "fast_cohort turnover =
     filter (\<lambda>i. fle (quantile (3 / 4) turnover) (turnover ! i)) [0..<length turnover]"

definition slow_cohort :: "fl list \<Rightarrow> nat list" where
  "slow_cohort turnover =
     filter (\<lambda>i. fle (turnover ! i) (quantile (1 / 4) turnover)) [0..<length turnover]"

definition fast_rows :: "fl list \<Rightarrow> fl list \<Rightarrow> nat list" where
  "fast_rows turnover score = nlargest 10 score (nlargest 10 turnover (fast_cohort turnover))"

definition get_fast_slow_movers ::
  "(fl \<Rightarrow> string) \<Rightarrow> dataframe \<Rightarrow> colmap \<Rightarrow> error + movers" where
  "get_fast_slow_movers fmt df cols =
     ebind (getnamed df ''Final_Turnover'') (\<lambda>turnover.
     let turnover_75th = quantile (3 / 4) turnover;
         turnover_25th = quantile (1 / 4) turnover;
         rows0 = [0..<length (index df)];
         fast_movers = filter (\<lambda>i. fle turnover_75th (turnover ! i)) rows0;
         slow_movers = filter (\<lambda>i. fle (turnover ! i) turnover_25th) rows0
     in
     ebind (format_movers fmt df cols (nlargest 10 turnover fast_movers)) (\<lambda>fast.
     ebind (format_movers fmt df cols (nsmallest 10 turnover slow_movers)) (\<lambda>slow.
     Inr \<lparr> fastMovers = fast, slowMovers = slow,
           fastMoversCount = length fast_movers, slowMoversCount = length slow_movers,
           fastMoverThreshold = py_round 2 turnover_75th,
           slowMoverThreshold = py_round 2 turnover_25th \<rparr>)))"

section \<open>Example tables\<close>

text \<open>
  The two products of the specification's example, with the columns name, category,
  stock, sales and reorder, and the column map that \<open>detect_columns\<close> builds for
  these headers: every field it finds no header for is bound to \<open>None\<close> (the
  keywords \<open>supplier_name\<close>, \<open>order_time\<close> and \<open>max_stock\<close> make it bind the
  supplier to the name column, the lead time to the reorder column and the maximum stock
  to the stock column).
\<close>

definition widgets :: dataframe where
  "widgets = \<lparr> index = [0, 1],
     columns = [(''name'', [Txt ''Widget A'', Txt ''Widget B'']),
                (''category'', [Txt ''Tools'', Txt ''Tools'']),
                (''stock'', [Num (Fin 5), Num (Fin 100)]),
                (''sales'', [Num (Fin 2), Num (Fin 1)]),
                (''reorder'', [Num (Fin 10), Num (Fin 5)])] \<rparr>"

definition widgets_cols :: colmap where
  "widgets_cols = map_of
     [(''name'', Some ''name''), (''category'', Some ''category''), (''stock'', Some ''stock''),
      (''sales'', Some ''sales''), (''reorder'', Some ''reorder''), (''price'', None),
      (''supplier'', Some ''name''), (''lead_time'', Some ''reorder''), (''max_stock'', Some ''stock''),
      (''turnover'', None)]"

section \<open>Statements of the specification\<close>

text \<open>
  The status cascade as the specification words it: the conditions in priority order,
  the first that holds gives the label.
\<close>

definition stock_status_spec :: "fl \<Rightarrow> fl \<Rightarrow> fl \<Rightarrow> string" where
  "stock_status_spec stock level days =
     (if fle stock (fmul (Fin (1 / 2)) level) \<or> fle days (Fin 7) then ''CRITICAL''
      else if fle stock level \<or> fle days (Fin 15) then ''LOW''
      else if fle stock (fmul (Fin 2) level) \<and> fle days (Fin 45) then ''NORMAL''
      else if fle stock (fmul (Fin 3) level) \<and> fle days (Fin 90) then ''HEALTHY''
      else ''EXCESS'')"

text \<open>
  The reorder level of the cascade: the resolved reorder column if the table has it,
  else \<open>Optimal_Reorder_Point\<close>.
\<close>

definition reorder_level_spec :: "dataframe \<Rightarrow> colmap \<Rightarrow> error + fl list" where
  "reorder_level_spec df cols =
     (if has_col cols df ''reorder'' then getnum df cols ''reorder''
      else getnamed df ''Optimal_Reorder_Point'')"

text \<open>
  One product with no stock: stock 0, monthly sales 10, reorder level 5, price 4, and
  the column map that \<open>detect_columns\<close> builds for the six headers. The frame
  \<open>zero_stock_prepared\<close> is the state of \<open>_prepare_data\<close> on it when
  \<open>_classify_stock_status\<close> is called.
\<close>

definition zero_stock :: dataframe where
  "zero_stock = \<lparr> index = [0],
     columns = [(''name'', [Txt ''Gadget'']), (''category'', [Txt ''Tools'']),
                (''stock'', [Num (Fin 0)]), (''sales'', [Num (Fin 10)]),
                (''reorder'', [Num (Fin 5)]), (''price'', [Num (Fin 4)])] \<rparr>"

definition priced_cols :: colmap where
  "priced_cols = map_of
     [(''name'', Some ''name''), (''category'', Some ''category''), (''stock'', Some ''stock''),
      (''sales'', Some ''sales''), (''reorder'', Some ''reorder''), (''price'', Some ''price''),
      (''supplier'', Some ''name''), (''lead_time'', Some ''reorder''), (''max_stock'', Some ''stock''),
      (''turnover'', None)]"

definition zero_stock_prepared :: dataframe where
  "zero_stock_prepared = \<lparr> index = [0],
     columns = [(''name'', [Txt ''Gadget'']), (''category'', [Txt ''Tools'']),
                (''stock'', [Num (Fin 0)]), (''sales'', [Num (Fin 10)]),
                (''reorder'', [Num (Fin 5)]), (''price'', [Num (Fin 4)]),
                (''Annual_Sales'', [Num (Fin 120)]), (''COGS'', [Num (Fin 480)]),
                (''Inventory_Turnover'', [Num (Fin 0)]), (''Simple_Turnover'', [Num (Fin 0)]),
                (''Final_Turnover'', [Num (Fin 0)]), (''Days_of_Supply'', [Num (Fin 0)]),
                (''Safety_Stock'', [Num (Fin 15)]),
                (''Optimal_Reorder_Point'', [Num (Fin (59 / 3))]),
                (''EOQ'', [Num (Fin (sqrt 12000))]), (''Inventory_Value'', [Num (Fin 0)]),
                (''ABC_Class'', [Txt ''C''])] \<rparr>"

definition zero_stock_classified :: dataframe where
  "zero_stock_classified = \<lparr> index = [0],
     columns = columns zero_stock_prepared @
               [(''Stock_Status'', [Txt ''CRITICAL'']), (''Priority_Score'', [Num (Fin 73)])] \<rparr>"

text \<open>One product that does not sell: stock 5, monthly sales 0, reorder level 5, price 4.\<close>

definition dead_stock :: dataframe where
  "dead_stock = \<lparr> index = [0],
     columns = [(''name'', [Txt ''Gizmo'']), (''category'', [Txt ''Tools'']),
                (''stock'', [Num (Fin 5)]), (''sales'', [Num (Fin 0)]),
                (''reorder'', [Num (Fin 5)]), (''price'', [Num (Fin 4)])] \<rparr>"

definition dead_stock_augmented :: dataframe where
  "dead_stock_augmented = \<lparr> index = [0],
     columns = columns dead_stock @
               [(''Annual_Sales'', [Num (Fin 0)]), (''COGS'', [Num (Fin 0)]),
                (''Inventory_Turnover'', [Num NaN]), (''Simple_Turnover'', [Num (Fin 0)]),
                (''Final_Turnover'', [Num NaN]), (''Days_of_Supply'', [Num (Fin 365)]),
                (''Safety_Stock'', [Num (Fin 0)]), (''Optimal_Reorder_Point'', [Num (Fin 0)]),
                (''EOQ'', [Num (Fin 0)]), (''Inventory_Value'', [Num (Fin 20)]),
                (''ABC_Class'', [Txt ''C'']), (''Stock_Status'', [Txt ''LOW'']),
                (''Priority_Score'', [Num (Fin (- 106))])] \<rparr>"

text \<open>A reader of numerals that reads none; the example tables hold no strings to read.\<close>

definition no_numerals :: "string \<Rightarrow> fl" where
  "no_numerals s = NaN"

text \<open>
  ABC classification as the specification words it, for a given revenue impact per row:
  rank the rows by descending impact, take the cumulative percentage of the total along
  the ranking, band it at 70 and 90 (inclusive), and give every row the band of its rank.
\<close>

definition abc_band :: "fl \<Rightarrow> string" where
  "abc_band p = (if fle p (Fin 70) then ''A'' else if fle p (Fin 90) then ''B'' else ''C'')"

definition position_of :: "nat list \<Rightarrow> nat \<Rightarrow> nat" where
  "position_of order i = length (takeWhile (\<lambda>j. j \<noteq> i) order)"

definition abc_by_impact :: "fl list \<Rightarrow> string list" where
  "abc_by_impact impact =
     (let order = sort_positions_desc impact;
          ranked = map (\<lambda>i. impact ! i) order;
          total = nansum ranked;
          percent = map (\<lambda>c. fmul (fdiv c total) (Fin 100)) (cumsum ranked)
      in map (\<lambda>i. abc_band (percent ! position_of order i)) [0..<length impact])"

text \<open>
  Two products where the order by annual sales and the order by cost of goods differ:
  20 in stock, 10 sold a month at price 1; 10 in stock, 5 sold a month at price 10.
\<close>

definition two_products :: dataframe where
  "two_products = \<lparr> index = [0, 1],
     columns = [(''name'', [Txt ''Bolt'', Txt ''Drill'']),
                (''category'', [Txt ''Tools'', Txt ''Tools'']),
                (''stock'', [Num (Fin 20), Num (Fin 10)]),
                (''sales'', [Num (Fin 10), Num (Fin 5)]),
                (''reorder'', [Num (Fin 5), Num (Fin 5)]),
                (''price'', [Num (Fin 1), Num (Fin 10)])] \<rparr>"

definition two_products_augmented :: dataframe where
  "two_products_augmented = \<lparr> index = [0, 1],
     columns = columns two_products @
       [(''Annual_Sales'', [Num (Fin 120), Num (Fin 60)]),
        (''COGS'', [Num (Fin 120), Num (Fin 600)]),
        (''Inventory_Turnover'', [Num (Fin 6), Num (Fin 6)]),
        (''Simple_Turnover'', [Num (Fin 6), Num (Fin 6)]),
        (''Final_Turnover'', [Num (Fin 6), Num (Fin 6)]),
        (''Days_of_Supply'', [Num (Fin 60), Num (Fin 60)]),
        (''Safety_Stock'', [Num (Fin 15), Num (Fin (15 / 2))]),
        (''Optimal_Reorder_Point'', [Num (Fin (59 / 3)), Num (Fin (59 / 6))]),
        (''EOQ'', [Num (Fin (sqrt 12000)), Num (Fin (sqrt 2400))]),
        (''Inventory_Value'', [Num (Fin 20), Num (Fin 100)]),
        (''ABC_Class'', [Txt ''C'', Txt ''B'']),
        (''Stock_Status'', [Txt ''EXCESS'', Txt ''HEALTHY'']),
        (''Priority_Score'', [Num (Fin 19), Num (Fin (35 / 2))])] \<rparr>"

text \<open>The table of \<open>two_products\<close> when \<open>_calculate_abc_analysis\<close> is called.\<close>

definition two_products_prepared :: dataframe where
  "two_products_prepared =
     \<lparr> index = [0, 1], columns = take 16 (columns two_products_augmented) \<rparr>"

text \<open>
  The score as the specification words it: for every keyword the points of the best
  of the three matches (exact, contained, a token of it contained) against the header
  in lower case without surrounding white space, summed over the keywords, plus 10 if
  the header contains a generic inventory term.
\<close>

definition spec_keyword_points :: "string \<Rightarrow> string \<Rightarrow> nat" where
  "spec_keyword_points header keyword =
     (let h = strip (lower header); k = lower keyword in
      if k = h then 100
      else if contains k h then 50
      else if \<exists>token \<in> set (split_on CHR ''_'' k). contains token h then 25
      else 0)"

definition spec_score :: "string list \<Rightarrow> string \<Rightarrow> nat" where
  "spec_score keywords header =
     sum_list (map (spec_keyword_points header) keywords)
     + (if \<exists>term \<in> set [''qty'', ''amount'', ''level'', ''count'', ''volume'', ''units''].
            contains term (strip (lower header)) then 10 else 0)"

text \<open>The elements of a list in the order of their first occurrence.\<close>

fun firsts :: "'a list \<Rightarrow> 'a list" where
  "firsts [] = []"
| "firsts (x # xs) = x # filter (\<lambda>y. y \<noteq> x) (firsts xs)"

text \<open>
  The pruning rule as the specification words it: the rows to drop are those whose
  cells are missing in the raw table in every mapped critical field.
\<close>

definition raw_missing :: "cell \<Rightarrow> bool" where
  "raw_missing c = (c = Num NaN)"

definition no_signal_rows :: "dataframe \<Rightarrow> colmap \<Rightarrow> nat list" where
  "no_signal_rows df cols =
     filter (\<lambda>i. list_all (\<lambda>k. case mapped_col cols df k of None \<Rightarrow> True
                   | Some c \<Rightarrow> (case map_of (columns df) c of None \<Rightarrow> True
                       | Some v \<Rightarrow> raw_missing (v ! i)))
                 [''name'', ''stock'', ''sales''])
            [0..<length (index df)]"

text \<open>
  The cleaned stock column as the specification words it: numeric coercion, the
  absolute value for negatives, and the median of the present values (0 if there is
  none) in the gaps.
\<close>

definition cleaned_stock_spec :: "(string \<Rightarrow> fl) \<Rightarrow> cell list \<Rightarrow> fl list" where
  "cleaned_stock_spec parse raw =
     (let xs = map (\<lambda>c. fabs (num_of c)) (to_numeric parse raw)
      in fillna (if isna_all xs then Fin 0 else median xs) xs)"

text \<open>
  A table with a row that has no name, no stock and no sales, and a table whose stock
  column has a negative value and a gap and whose reorder column has a gap.
\<close>

definition gappy :: dataframe where
  "gappy = \<lparr> index = [0, 1],
     columns = [(''name'', [Txt ''Widget A'', Num NaN]),
                (''category'', [Txt ''Tools'', Txt ''Tools'']),
                (''stock'', [Num (Fin 5), Num NaN]),
                (''sales'', [Num (Fin 2), Num NaN]),
                (''reorder'', [Num (Fin 10), Num (Fin 5)])] \<rparr>"

definition gappy_cleaned :: dataframe where
  "gappy_cleaned = \<lparr> index = [0, 1],
     columns = [(''name'', [Txt ''Widget A'', Txt ''Unknown Product'']),
                (''category'', [Txt ''Tools'', Txt ''Tools'']),
                (''stock'', [Num (Fin 5), Num (Fin 5)]),
                (''sales'', [Num (Fin 2), Num (Fin 2)]),
                (''reorder'', [Num (Fin 10), Num (Fin 5)])] \<rparr>"

definition restock :: dataframe where
  "restock = \<lparr> index = [0, 1, 2],
     columns = [(''name'', [Txt ''Bolt'', Txt ''Drill'', Txt ''Saw'']),
                (''category'', [Txt ''Tools'', Txt ''Tools'', Txt ''Tools'']),
                (''stock'', [Num (Fin (- 10)), Num NaN, Num (Fin 20)]),
                (''sales'', [Num (Fin 2), Num (Fin 1), Num (Fin 3)]),
                (''reorder'', [Num NaN, Num (Fin 4), Num (Fin 6)])] \<rparr>"

text \<open>A number that is neither missing nor negative.\<close>

fun nonneg :: "fl \<Rightarrow> bool" where
  "nonneg (Fin a) = (0 \<le> a)"
| "nonneg PInf = True"
| "nonneg NInf = False"
| "nonneg NaN = False"

text \<open>A column that holds strings only.\<close>

definition all_txt :: "dataframe \<Rightarrow> string \<Rightarrow> bool" where
  "all_txt df c = (case map_of (columns df) c of None \<Rightarrow> False
     | Some v \<Rightarrow> list_all (\<lambda>x. \<not> is_num x) v)"

text \<open>
  Eleven products with the same turnover: ten with 10 in stock and 10 sold a month, and
  a last one with 20 in stock and 20 sold a month, which has the highest priority score.
\<close>

definition shelf :: dataframe where
  "shelf = \<lparr> index = [0, 1, 2, 3, 4, 5, 6, 7, 8, 9, 10],
     columns =
       [(''name'', [Txt ''P0'', Txt ''P1'', Txt ''P2'', Txt ''P3'', Txt ''P4'', Txt ''P5'',
         Txt ''P6'', Txt ''P7'', Txt ''P8'', Txt ''P9'', Txt ''P10'']),
        (''category'', [Txt ''Tools'', Txt ''Tools'', Txt ''Tools'', Txt ''Tools'', Txt
         ''Tools'', Txt ''Tools'', Txt ''Tools'', Txt ''Tools'', Txt ''Tools'', Txt
         ''Tools'', Txt ''Tools'']),
        (''stock'', [Num (Fin 10), Num (Fin 10), Num (Fin 10), Num (Fin 10), Num (Fin 10),
         Num (Fin 10), Num (Fin 10), Num (Fin 10), Num (Fin 10), Num (Fin 10), Num (Fin
         20)]),
        (''sales'', [Num (Fin 10), Num (Fin 10), Num (Fin 10), Num (Fin 10), Num (Fin 10),
         Num (Fin 10), Num (Fin 10), Num (Fin 10), Num (Fin 10), Num (Fin 10), Num (Fin
         20)]),
        (''reorder'', [Num (Fin 5), Num (Fin 5), Num (Fin 5), Num (Fin 5), Num (Fin 5), Num
         (Fin 5), Num (Fin 5), Num (Fin 5), Num (Fin 5), Num (Fin 5), Num (Fin 5)]),
        (''price'', [Num (Fin 1), Num (Fin 1), Num (Fin 1), Num (Fin 1), Num (Fin 1), Num
         (Fin 1), Num (Fin 1), Num (Fin 1), Num (Fin 1), Num (Fin 1), Num (Fin 1)])] \<rparr>"

definition shelf_augmented :: dataframe where
  "shelf_augmented = \<lparr> index = [0, 1, 2, 3, 4, 5, 6, 7, 8, 9, 10],
     columns = columns shelf @
       [(''Annual_Sales'', [Num (Fin 120), Num (Fin 120), Num (Fin 120), Num (Fin 120), Num
         (Fin 120), Num (Fin 120), Num (Fin 120), Num (Fin 120), Num (Fin 120), Num (Fin
         120), Num (Fin 240)]),
        (''COGS'', [Num (Fin 120), Num (Fin 120), Num (Fin 120), Num (Fin 120), Num (Fin
         120), Num (Fin 120), Num (Fin 120), Num (Fin 120), Num (Fin 120), Num (Fin 120),
         Num (Fin 240)]),
        (''Inventory_Turnover'', [Num (Fin 12), Num (Fin 12), Num (Fin 12), Num (Fin 12),
         Num (Fin 12), Num (Fin 12), Num (Fin 12), Num (Fin 12), Num (Fin 12), Num (Fin 12),
         Num (Fin 12)]),
        (''Simple_Turnover'', [Num (Fin 12), Num (Fin 12), Num (Fin 12), Num (Fin 12), Num
         (Fin 12), Num (Fin 12), Num (Fin 12), Num (Fin 12), Num (Fin 12), Num (Fin 12), Num
         (Fin 12)]),
        (''Final_Turnover'', [Num (Fin 12), Num (Fin 12), Num (Fin 12), Num (Fin 12), Num
         (Fin 12), Num (Fin 12), Num (Fin 12), Num (Fin 12), Num (Fin 12), Num (Fin 12), Num
         (Fin 12)]),
        (''Days_of_Supply'', [Num (Fin 30), Num (Fin 30), Num (Fin 30), Num (Fin 30), Num
         (Fin 30), Num (Fin 30), Num (Fin 30), Num (Fin 30), Num (Fin 30), Num (Fin 30), Num
         (Fin 30)]),
        (''Safety_Stock'', [Num (Fin 15), Num (Fin 15), Num (Fin 15), Num (Fin 15), Num
         (Fin 15), Num (Fin 15), Num (Fin 15), Num (Fin 15), Num (Fin 15), Num (Fin 15), Num
         (Fin 30)]),
        (''Optimal_Reorder_Point'', [Num (Fin (59 / 3)), Num (Fin (59 / 3)), Num (Fin (59 /
         3)), Num (Fin (59 / 3)), Num (Fin (59 / 3)), Num (Fin (59 / 3)), Num (Fin (59 /
         3)), Num (Fin (59 / 3)), Num (Fin (59 / 3)), Num (Fin (59 / 3)), Num (Fin (118 /
         3))]),
        (''EOQ'', [Num (Fin (sqrt 12000)), Num (Fin (sqrt 12000)), Num (Fin (sqrt 12000)),
         Num (Fin (sqrt 12000)), Num (Fin (sqrt 12000)), Num (Fin (sqrt 12000)), Num (Fin
         (sqrt 12000)), Num (Fin (sqrt 12000)), Num (Fin (sqrt 12000)), Num (Fin (sqrt
         12000)), Num (Fin (sqrt 24000))]),
        (''Inventory_Value'', [Num (Fin 10), Num (Fin 10), Num (Fin 10), Num (Fin 10), Num
         (Fin 10), Num (Fin 10), Num (Fin 10), Num (Fin 10), Num (Fin 10), Num (Fin 10), Num
         (Fin 20)]),
        (''ABC_Class'', [Txt ''A'', Txt ''A'', Txt ''A'', Txt ''A'', Txt ''A'', Txt ''A'',
         Txt ''B'', Txt ''B'', Txt ''C'', Txt ''C'', Txt ''A'']),
        (''Stock_Status'', [Txt ''NORMAL'', Txt ''NORMAL'', Txt ''NORMAL'', Txt ''NORMAL'',
         Txt ''NORMAL'', Txt ''NORMAL'', Txt ''NORMAL'', Txt ''NORMAL'', Txt ''NORMAL'', Txt
         ''NORMAL'', Txt ''EXCESS'']),
        (''Priority_Score'', [Num (Fin 51), Num (Fin 51), Num (Fin 51), Num (Fin 51), Num
         (Fin 51), Num (Fin 51), Num (Fin 31), Num (Fin 31), Num (Fin 31), Num (Fin 31), Num
         (Fin 54)])] \<rparr>"

text \<open>No regular expression engine and no number formatting: the examples need neither.\<close>

definition no_regex :: "string \<Rightarrow> (string \<Rightarrow> bool) option" where
  "no_regex pattern = None"

definition no_format :: "fl \<Rightarrow> string" where
  "no_format x = []"

text \<open>
  The statements of the specification about a reported list \<open>rows\<close> of a cohort: it is
  the cohort limited to the \<open>n\<close> rows with the highest (lowest) value.
\<close>

definition limited_to_top :: "nat \<Rightarrow> fl list \<Rightarrow> nat list \<Rightarrow> nat list \<Rightarrow> bool" where
  "limited_to_top n vals cohort rows =
     (set rows \<subseteq> set cohort \<and> distinct rows \<and> length rows = min n (length cohort) \<and>
      (\<forall>i \<in> set rows. \<forall>j \<in> set cohort - set rows. fle (vals ! j) (vals ! i)))"

definition limited_to_bottom :: "nat \<Rightarrow> fl list \<Rightarrow> nat list \<Rightarrow> nat list \<Rightarrow> bool" where
  "limited_to_bottom n vals cohort rows =
     (set rows \<subseteq> set cohort \<and> distinct rows \<and> length rows = min n (length cohort) \<and>
      (\<forall>i \<in> set rows. \<forall>j \<in> set cohort - set rows. fle (vals ! i) (vals ! j)))"

definition by_descending_score :: "dataframe \<Rightarrow> nat list \<Rightarrow> bool" where
  "by_descending_score df rows =
     (rows = [] \<or> (case getnamed df ''Priority_Score'' of
                      Inl e \<Rightarrow> False
                    | Inr score \<Rightarrow> sorted (map (\<lambda>i. desc_key (score ! i)) rows)))"

definition two_products_movers :: movers where
  "two_products_movers =
     (let bolt = \<lparr> m_name = ''Bolt'', m_category = ''Tools'', m_turnover = Fin 6, m_stock = 20,
                    m_monthlySales = 10, daysSupply = Fin 60, m_inventoryValue = Fin 20,
                    m_abcClass = ''C'', m_status = ''EXCESS'', m_priorityScore = Fin 19 \<rparr>;
          drill = \<lparr> m_name = ''Drill'', m_category = ''Tools'', m_turnover = Fin 6, m_stock = 10,
                     m_monthlySales = 5, daysSupply = Fin 60, m_inventoryValue = Fin 100,
                     m_abcClass = ''B'', m_status = ''HEALTHY'',
                     m_priorityScore = Fin (35 / 2) \<rparr>
      in \<lparr> fastMovers = [bolt, drill], slowMovers = [bolt, drill],
            fastMoversCount = 2, slowMoversCount = 2,
            fastMoverThreshold = Fin 6, slowMoverThreshold = Fin 6 \<rparr>)"

definition fast_names :: "error + movers \<Rightarrow> error + string list" where
  "fast_names r = ebind r (\<lambda>m. Inr (map m_name (fastMovers m)))"

definition gizmo :: product where
  "gizmo = \<lparr> p_name = ''Gizmo'', p_category = ''Tools'', currentStock = 5, monthlySales = 0,
              p_turnover = NaN, daysOfSupply = Fin 365, p_status = ''LOW'', abcClass = ''C'',
              inventoryValue = Fin 20, reorderPoint = 0, suggestedOrder = 0,
              priorityScore = Fin (- 106) \<rparr>"

section \<open>Basic facts\<close>

lemma ebind_Inr [simp]: "ebind (Inr x) f = f x"
  by (simp add: ebind_def)

lemma ebind_Inl [simp]: "ebind (Inl e) f = Inl e"
  by (simp add: ebind_def)

lemma ebind_eq_Inr: "ebind m f = Inr y \<longleftrightarrow> (\<exists>x. m = Inr x \<and> f x = Inr y)"
  by (cases m) simp_all

lemma index_setcol [simp]: "index (setcol df c v) = index df"
  by (simp add: setcol_def)

lemma map_of_setcol [simp]: "map_of (columns (setcol df c v)) = (map_of (columns df))(c \<mapsto> v)"
  by (simp add: setcol_def update_conv')

lemma in_columns_setcol [simp]: "in_columns (setcol df c v) c' \<longleftrightarrow> c' = c \<or> in_columns df c'"
  by (auto simp: in_columns_def setcol_def dom_update)

lemmas engine_defs =
  prepare_data_def prepare_sales_cogs_def prepare_turnover_def prepare_supply_def
  prepare_eoq_value_def calculate_abc_analysis_def classify_stock_status_def
  validate_data_def init_def getnum_def getnamed_def cols_item_def df_item_def num_col_def
  has_col_def cols_get_def vec_def get_cogs_or_25_def np_where_def

section \<open>The default unit cost\<close>

lemma getnum_unresolved:
  "cols_get cols k = None \<Longrightarrow> \<exists>e. getnum df cols k = Inl e"
  by (auto simp: cols_get_def getnum_def cols_item_def df_item_def split: option.splits)

lemma prepare_eoq_value_needs_price:
  "cols_get cols ''price'' = None \<Longrightarrow> \<exists>e. prepare_eoq_value df cols = Inl e"
  using getnum_unresolved [of cols "''price''" df]
  by (cases "getnamed df ''Annual_Sales''") (auto simp: prepare_eoq_value_def Let_def)

lemma prepare_turnover_cols:
  "prepare_turnover df cols = Inr (df', cols') \<Longrightarrow>
   cols' = cols(''turnover'' \<mapsto> Some ''Final_Turnover'')"
  by (auto simp: prepare_turnover_def ebind_eq_Inr Let_def)

text \<open>
  Whatever the table is, an unresolved price field makes \<open>_prepare_data\<close> raise: the
  read of the price column sits in the argument list of \<open>np.where\<close>.
\<close>

lemma prepare_data_needs_price:
  assumes "cols_get cols ''price'' = None"
  shows "\<exists>e. prepare_data parse df cols = Inl e"
proof (cases "prepare_data parse df cols")
  case (Inl e)
  then show ?thesis by blast
next
  case (Inr r)
  then obtain df1 df2 cols' df3 df4 where
    t: "prepare_turnover df1 cols = Inr (df2, cols')" and e: "prepare_eoq_value df3 cols' = Inr df4"
    by (auto simp: prepare_data_def ebind_eq_Inr)
  from t have "cols' = cols(''turnover'' \<mapsto> Some ''Final_Turnover'')"
    by (rule prepare_turnover_cols)
  with assms have "cols_get cols' ''price'' = None"
    by (simp add: cols_get_def)
  from prepare_eoq_value_needs_price [OF this, of df3] e show ?thesis by simp
qed

text \<open>
  C1. With name, category, stock and sales resolved and no price column, the Metric
  Engine is claimed to finish on the default unit cost of 25. On the specification's
  own two-product table the constructor raises \<open>KeyError\<close> instead, at the read
  \<open>self.df[self.cols['price']]\<close> with \<open>self.cols['price']\<close> being \<open>None\<close>.
\<close>

theorem c1_unresolved_price_raises:
  "init parse widgets widgets_cols = Inl (KeyError None)"
  by (simp add: engine_defs widgets_def widgets_cols_def in_columns_def setcol_def Let_def)

section \<open>Evaluation of the examples\<close>

lemmas eval_defs = engine_defs in_columns_def setcol_def Let_def
  revenue_impact_def sort_positions_desc_def cumsum_def nansum_def abc_choice_def select_row_def
  merge_left_index_def merge_pairs_def fgt_def flt_def np_minimum_def np_maximum_def
  safety_stock_multiplier_def inf_of_sign_def to_numeric_def
  status_choice_def priority_score_def fsub_def flag_def

lemma zero_stock_prepared_reached:
  "ebind (prepare_sales_cogs parse zero_stock priced_cols) (\<lambda>df1.
   ebind (prepare_turnover df1 priced_cols) (\<lambda>(df2, cols').
   ebind (prepare_supply df2 cols') (\<lambda>df3.
   ebind (prepare_eoq_value df3 cols') (\<lambda>df4.
   calculate_abc_analysis df4)))) = Inr zero_stock_prepared"
  by (simp add: eval_defs zero_stock_def priced_cols_def zero_stock_prepared_def)

section \<open>Stock status\<close>

lemma fmul_commute: "fmul x y = fmul y x"
  by (cases x; cases y) (simp_all add: mult.commute)

lemma status_choice_spec: "status_choice s r d = stock_status_spec s r d"
  by (simp add: status_choice_def stock_status_spec_def select_row_def fmul_commute [of r])

lemma stock_status_spec_total:
  "stock_status_spec s r d \<in> {''CRITICAL'', ''LOW'', ''NORMAL'', ''HEALTHY'', ''EXCESS''}"
  by (simp add: stock_status_spec_def)

lemma stock_status_spec_critical:
  "stock_status_spec s r d = ''CRITICAL'' \<longleftrightarrow> fle s (fmul (Fin (1 / 2)) r) \<or> fle d (Fin 7)"
  by (simp add: stock_status_spec_def)

lemma num_col_length: "num_col cs = Inr xs \<Longrightarrow> length xs = length cs"
  by (auto simp: num_col_def split: if_splits)

lemma wf_df_item_length:
  "wf_df df \<Longrightarrow> df_item df c = Inr v \<Longrightarrow> length v = length (index df)"
  by (auto simp: wf_df_def df_item_def list_all_iff split: option.splits dest!: map_of_SomeD)

lemma wf_getnum_length:
  "wf_df df \<Longrightarrow> getnum df cols k = Inr xs \<Longrightarrow> length xs = length (index df)"
  by (auto simp: getnum_def ebind_eq_Inr) (metis num_col_length wf_df_item_length)

lemma wf_getnamed_length:
  "wf_df df \<Longrightarrow> getnamed df c = Inr xs \<Longrightarrow> length xs = length (index df)"
  by (auto simp: getnamed_def ebind_eq_Inr) (metis num_col_length wf_df_item_length)

lemma df_item_setcol:
  "df_item (setcol df c v) k = (if k = Some c then Inr v else df_item df k)"
  by (auto simp: df_item_def split: option.splits)

text \<open>
  C5. When \<open>_classify_stock_status\<close> returns on a well-formed table, the column
  \<open>Stock_Status\<close> holds, row by row, the label of the specification's cascade applied
  to the row's stock, reorder level (the resolved reorder column if the table has it,
  else \<open>Optimal_Reorder_Point\<close>) and days of supply: one label per row, each one of the
  five, the first condition that holds deciding, and a row is \<open>CRITICAL\<close> exactly when
  its stock is at most half the reorder level or its days of supply are at most 7.
\<close>

theorem c5_stock_status_cascade:
  assumes "wf_df df" and "classify_stock_status df cols = Inr df'"
  shows "\<exists>stock level days.
     getnum df cols ''stock'' = Inr stock \<and> reorder_level_spec df cols = Inr level \<and>
     getnamed df ''Days_of_Supply'' = Inr days \<and>
     length stock = length (index df) \<and> length level = length (index df) \<and>
     length days = length (index df) \<and>
     df_item df' (Some ''Stock_Status'') =
       Inr (map (\<lambda>(s, r, d). Txt (stock_status_spec s r d)) (zip stock (zip level days))) \<and>
     (\<forall>(s, r, d) \<in> set (zip stock (zip level days)).
        stock_status_spec s r d \<in> {''CRITICAL'', ''LOW'', ''NORMAL'', ''HEALTHY'', ''EXCESS''} \<and>
        (stock_status_spec s r d = ''CRITICAL'' \<longleftrightarrow>
           fle s (fmul (Fin (1 / 2)) r) \<or> fle d (Fin 7)))"
proof -
  from assms(2) obtain level stock days where
    l: "reorder_level_spec df cols = Inr level" and s: "getnum df cols ''stock'' = Inr stock"
    and d: "getnamed df ''Days_of_Supply'' = Inr days"
    and st: "df_item df' (Some ''Stock_Status'') =
       Inr (map (\<lambda>(s, r, d). Txt (status_choice s r d)) (zip stock (zip level days)))"
    by (auto simp: classify_stock_status_def reorder_level_spec_def ebind_eq_Inr Let_def
        df_item_setcol simp del: map_of_setcol split: if_splits)
  have "length level = length (index df)"
    using l assms(1)
    by (auto simp: reorder_level_spec_def wf_getnum_length wf_getnamed_length split: if_splits)
  moreover have "\<forall>(s, r, d) \<in> set (zip stock (zip level days)).
        stock_status_spec s r d \<in> {''CRITICAL'', ''LOW'', ''NORMAL'', ''HEALTHY'', ''EXCESS''} \<and>
        (stock_status_spec s r d = ''CRITICAL'' \<longleftrightarrow>
           fle s (fmul (Fin (1 / 2)) r) \<or> fle d (Fin 7))"
    using stock_status_spec_total stock_status_spec_critical by blast
  ultimately show ?thesis
    using l s d st assms(1)
    by (simp add: status_choice_spec wf_getnum_length wf_getnamed_length)
qed

lemma zero_stock_classify:
  "classify_stock_status zero_stock_prepared (priced_cols(''turnover'' \<mapsto> Some ''Final_Turnover''))
   = Inr zero_stock_classified"
  by (simp add: eval_defs priced_cols_def zero_stock_prepared_def zero_stock_classified_def)

text \<open>
  The row of the specification's example (stock 0, sales 10, reorder level 5) is
  \<open>CRITICAL\<close>.
\<close>

theorem c5_stock_status_cascade_witness:
  "wf_df zero_stock_prepared \<and>
   classify_stock_status zero_stock_prepared (priced_cols(''turnover'' \<mapsto> Some ''Final_Turnover''))
     = Inr zero_stock_classified \<and>
   df_item zero_stock_classified (Some ''Stock_Status'') =
     Inr [Txt (stock_status_spec (Fin 0) (Fin 5) (Fin 0))] \<and>
   stock_status_spec (Fin 0) (Fin 5) (Fin 0) = ''CRITICAL''"
proof -
  have w: "wf_df zero_stock_prepared"
    by (simp add: wf_df_def zero_stock_prepared_def)
  obtain stock level days where
    "getnum zero_stock_prepared (priced_cols(''turnover'' \<mapsto> Some ''Final_Turnover'')) ''stock''
       = Inr stock"
    "reorder_level_spec zero_stock_prepared (priced_cols(''turnover'' \<mapsto> Some ''Final_Turnover''))
       = Inr level"
    "getnamed zero_stock_prepared ''Days_of_Supply'' = Inr days"
    "df_item zero_stock_classified (Some ''Stock_Status'') =
       Inr (map (\<lambda>(s, r, d). Txt (stock_status_spec s r d)) (zip stock (zip level days)))"
    using c5_stock_status_cascade [OF w zero_stock_classify] by blast
  moreover have "stock_status_spec (Fin 0) (Fin 5) (Fin 0) = ''CRITICAL''"
    by (simp add: stock_status_spec_def)
  ultimately show ?thesis
    using w zero_stock_classify
    by (auto simp: engine_defs reorder_level_spec_def in_columns_def priced_cols_def
        zero_stock_prepared_def)
qed

section \<open>Turnover\<close>

text \<open>
  C3. \<open>Final_Turnover\<close> is claimed to be the minimum of two estimates that are both at
  least 0. For a product with stock 5 and monthly sales 0 the simple estimate is 0, but
  the formula estimate divides by \<open>Annual_Sales = 0\<close> and is \<open>NaN\<close>, and so is
  \<open>Final_Turnover\<close>: neither is at least 0, and the final value is not the simple
  estimate 0.
\<close>

theorem c3_zero_sales_turnover_nan:
  "init parse dead_stock priced_cols =
     Inr (dead_stock_augmented, priced_cols(''turnover'' \<mapsto> Some ''Final_Turnover'')) \<and>
   df_item dead_stock_augmented (Some ''Simple_Turnover'') = Inr [Num (Fin 0)] \<and>
   df_item dead_stock_augmented (Some ''Inventory_Turnover'') = Inr [Num NaN] \<and>
   df_item dead_stock_augmented (Some ''Final_Turnover'') = Inr [Num NaN] \<and>
   \<not> fle (Fin 0) NaN"
  by (simp add: eval_defs fillna_zero_def retype_numeric_def truthy_def
      cols_get_default_def fillna_cells_def dead_stock_def dead_stock_augmented_def priced_cols_def)

section \<open>Running the engine again\<close>

lemma getnum_turnover_upd [simp]:
  "k \<noteq> ''turnover'' \<Longrightarrow> getnum df (cols(''turnover'' \<mapsto> v)) k = getnum df cols k"
  by (simp add: getnum_def cols_item_def)

lemma has_col_turnover_upd [simp]:
  "k \<noteq> ''turnover'' \<Longrightarrow> has_col (cols(''turnover'' \<mapsto> v)) df k = has_col cols df k"
  by (simp add: has_col_def cols_get_def)

lemma cols_item_turnover_upd [simp]:
  "k \<noteq> ''turnover'' \<Longrightarrow> cols_item (cols(''turnover'' \<mapsto> v)) k = cols_item cols k"
  by (simp add: cols_item_def)

lemma cols_get_turnover_upd [simp]:
  "k \<noteq> ''turnover'' \<Longrightarrow> cols_get (cols(''turnover'' \<mapsto> v)) k = cols_get cols k"
  by (simp add: cols_get_def)

lemma prepare_sales_cogs_turnover_upd:
  "prepare_sales_cogs parse df (cols(''turnover'' \<mapsto> v)) = prepare_sales_cogs parse df cols"
  by (simp add: prepare_sales_cogs_def Let_def cong: if_cong)

lemma prepare_turnover_turnover_upd:
  "prepare_turnover df (cols(''turnover'' \<mapsto> v)) = prepare_turnover df cols"
  by (simp add: prepare_turnover_def Let_def cong: if_cong)

lemma prepare_data_turnover_upd:
  "prepare_data parse df (cols(''turnover'' \<mapsto> v)) = prepare_data parse df cols"
  by (simp add: prepare_data_def prepare_sales_cogs_turnover_upd prepare_turnover_turnover_upd)

lemma prepare_data_cols:
  "prepare_data parse df cols = Inr (df', cols') \<Longrightarrow>
   cols' = cols(''turnover'' \<mapsto> Some ''Final_Turnover'')"
  by (auto simp: prepare_data_def ebind_eq_Inr dest: prepare_turnover_cols)

lemma init_cols:
  "init parse df cols = Inr (df', cols') \<Longrightarrow>
   cols' = cols(''turnover'' \<mapsto> Some ''Final_Turnover'')"
  by (auto simp: init_def ebind_eq_Inr dest: prepare_data_cols)

lemma zero_stock_init:
  "init no_numerals zero_stock priced_cols
   = Inr (zero_stock_classified, priced_cols(''turnover'' \<mapsto> Some ''Final_Turnover''))"
  by (simp add: eval_defs fillna_zero_def retype_numeric_def truthy_def
      cols_get_default_def fillna_cells_def zero_stock_def zero_stock_classified_def
      zero_stock_prepared_def priced_cols_def)

lemma zero_stock_rerun:
  "init no_numerals zero_stock_classified (priced_cols(''turnover'' \<mapsto> Some ''Final_Turnover''))
   = Inl (KeyError (Some ''ABC_Class''))"
  by (simp add: eval_defs fillna_zero_def retype_numeric_def truthy_def
      cols_get_default_def fillna_cells_def zero_stock_def zero_stock_classified_def
      zero_stock_prepared_def priced_cols_def)




section \<open>ABC classification\<close>

lemma abc_choice_band: "abc_choice p = abc_band p"
  by (simp add: abc_choice_def abc_band_def select_row_def)

lemma set_sort_positions [simp]: "set (sort_positions_desc vals) = {0..<length vals}"
  by (simp add: sort_positions_desc_def)

lemma length_sort_positions [simp]: "length (sort_positions_desc vals) = length vals"
  by (simp add: sort_positions_desc_def)

lemma distinct_sort_positions [simp]: "distinct (sort_positions_desc vals)"
  by (simp add: sort_positions_desc_def)

lemma position_of_less: "i \<in> set xs \<Longrightarrow> position_of xs i < length xs"
  unfolding position_of_def by (induction xs) auto

lemma nth_position_of: "i \<in> set xs \<Longrightarrow> xs ! position_of xs i = i"
  unfolding position_of_def by (induction xs) auto

lemma filter_upt_single:
  assumes "p < n" and "\<And>j. j < n \<Longrightarrow> P j \<longleftrightarrow> j = p"
  shows "filter P [0..<n] = [p]"
proof -
  have "filter P [0..<n] = filter (\<lambda>j. j = p) [0..<n]"
    using assms(2) by (intro filter_cong) auto
  also have "\<dots> = [p]"
    using assms(1) by (induction n) auto
  finally show ?thesis .
qed

lemma matches_of_row:
  assumes "distinct lidx" "distinct order" "set order = {0..<length lidx}" "i < length lidx"
  shows "filter (\<lambda>j. map (\<lambda>k. lidx ! k) order ! j = lidx ! i) [0..<length order]
         = [position_of order i]"
proof (rule filter_upt_single)
  from assms show "position_of order i < length order"
    by (simp add: position_of_less)
next
  fix j assume j: "j < length order"
  then have "order ! j < length lidx"
    using assms(3) nth_mem by fastforce
  then have "lidx ! (order ! j) = lidx ! i \<longleftrightarrow> order ! j = i"
    using assms(1,4) by (simp add: nth_eq_iff_index_eq)
  also have "\<dots> \<longleftrightarrow> j = position_of order i"
    using assms(2,3,4) j nth_position_of [of i order] position_of_less [of i order]
    by (auto simp: nth_eq_iff_index_eq)
  finally show "(map (\<lambda>k. lidx ! k) order ! j = lidx ! i) = (j = position_of order i)"
    using j by simp
qed

lemma concat_map_single:
  "(\<And>x. x \<in> set xs \<Longrightarrow> f x = [g x]) \<Longrightarrow> concat (map f xs) = map g xs"
  by (induction xs) auto

lemma merge_pairs_permutation:
  assumes "distinct lidx" "distinct order" "set order = {0..<length lidx}"
  shows "merge_pairs lidx (map (\<lambda>k. lidx ! k) order)
         = map (\<lambda>i. (i, Some (position_of order i))) [0..<length lidx]"
  unfolding merge_pairs_def
  by (rule concat_map_single) (use matches_of_row [OF assms] in simp)

lemma map_nth_upt: "length v = n \<Longrightarrow> map (\<lambda>i. v ! i) [0..<n] = v"
  by (auto simp: map_nth)

lemma merge_left_index_permutation:
  assumes "wf_df df" "distinct (index df)" "\<not> in_columns df rname"
    and "distinct order" "set order = {0..<length (index df)}"
    and "length rcol = length (index df)"
  shows "merge_left_index df (map (\<lambda>k. index df ! k) order) rname rcol
         = \<lparr> index = index df,
             columns = columns df @ [(rname, map (\<lambda>i. rcol ! position_of order i)
                                               [0..<length (index df)])] \<rparr>"
proof -
  have "map (\<lambda>(c, v). (c, map (\<lambda>i. v ! i) [0..<length (index df)])) (columns df) = columns df"
    using assms(1) by (intro map_idI) (auto simp: wf_df_def list_all_iff map_nth_upt)
  then show ?thesis
    using assms
    by (simp add: merge_left_index_def merge_pairs_permutation Let_def comp_def map_nth_upt
        case_prod_unfold)
qed

lemma length_cumsum_from [simp]: "length (cumsum_from acc xs) = length xs"
  by (induction xs arbitrary: acc) auto

lemma length_cumsum [simp]: "length (cumsum xs) = length xs"
  by (simp add: cumsum_def)

lemma abc_column_by_impact:
  assumes "length imp = n"
  shows "map (\<lambda>i. map Txt (map abc_choice
             (map (\<lambda>c. fmul (fdiv c (nansum (map (\<lambda>i. imp ! i) (sort_positions_desc imp)))) (Fin 100))
                  (cumsum (map (\<lambda>i. imp ! i) (sort_positions_desc imp)))))
           ! position_of (sort_positions_desc imp) i) [0..<n]
         = map Txt (abc_by_impact imp)"
  using assms position_of_less [of _ "sort_positions_desc imp"]
  by (auto simp: abc_by_impact_def Let_def abc_choice_band)

lemma two_products_init:
  "init no_numerals two_products priced_cols
   = Inr (two_products_augmented, priced_cols(''turnover'' \<mapsto> Some ''Final_Turnover''))"
  by (simp add: eval_defs fillna_zero_def retype_numeric_def truthy_def
      cols_get_default_def fillna_cells_def two_products_def two_products_augmented_def
      priced_cols_def)

lemma two_products_by_sales: "abc_by_impact [Fin 120, Fin 60] = [''A'', ''C'']"
  by (simp add: abc_by_impact_def abc_band_def sort_positions_desc_def cumsum_def nansum_def
      position_of_def Let_def)

lemma two_products_by_impact:
  "abc_by_impact (revenue_impact [Fin 120, Fin 60] [Fin 120, Fin 600]) = [''C'', ''B'']"
  by (simp add: abc_by_impact_def abc_band_def sort_positions_desc_def cumsum_def nansum_def
      position_of_def revenue_impact_def Let_def)

lemma two_products_abc:
  "calculate_abc_analysis two_products_prepared
   = Inr \<lparr> index = [0, 1], columns = take 17 (columns two_products_augmented) \<rparr>"
  by (simp add: eval_defs two_products_prepared_def two_products_def two_products_augmented_def)





section \<open>The Column Resolver\<close>

lemma fold_add_sum: "fold (\<lambda>k s. s + f k) ks (a::nat) = a + sum_list (map f ks)"
  by (induction ks arbitrary: a) auto

lemma keyword_points_spec: "keyword_points (strip (lower h)) k = spec_keyword_points h k"
  by (simp add: keyword_points_def spec_keyword_points_def Let_def list_ex_iff)

lemma column_score_spec: "column_score keywords h = spec_score keywords h"
  unfolding column_score_def spec_score_def Let_def fold_add_sum inventory_terms_def
    list_ex_iff keyword_points_spec
  by simp

lemma set_firsts [simp]: "set (firsts xs) = set xs"
  by (induction xs) auto

lemma distinct_firsts [simp]: "distinct (firsts xs)"
  by (induction xs) auto

lemma firsts_snoc: "firsts (xs @ [x]) = (if x \<in> set xs then firsts xs else firsts xs @ [x])"
  by (induction xs) auto

lemma firsts_append: "firsts (xs @ ys) = firsts xs @ filter (\<lambda>y. y \<notin> set xs) (firsts ys)"
proof (induction xs)
  case Nil
  show ?case by simp
next
  case (Cons x xs)
  have "filter (\<lambda>y. y \<noteq> x) (filter (\<lambda>y. y \<notin> set xs) (firsts ys))
        = filter (\<lambda>y. y \<notin> set (x # xs)) (firsts ys)"
    by (auto intro: filter_cong)
  with Cons show ?case by simp
qed

lemma update_map_self:
  "AList.update k (f k) (map (\<lambda>x. (x, f x)) ks)
   = (if k \<in> set ks then map (\<lambda>x. (x, f x)) ks else map (\<lambda>x. (x, f x)) ks @ [(k, f k)])"
  by (induction ks) auto

lemma column_scores_firsts:
  "column_scores kws hs
   = map (\<lambda>h. (h, column_score kws h)) (firsts (filter (\<lambda>h. 0 < column_score kws h) hs))"
  unfolding column_scores_def
proof (induction hs rule: rev_induct)
  case Nil
  show ?case by simp
next
  case (snoc h hs)
  then show ?case by (simp add: firsts_snoc update_map_self)
qed

lemma max_first_split:
  "\<exists>pre post. b # xs = pre @ max_first b xs # post \<and>
     (\<forall>x \<in> set pre. snd x < snd (max_first b xs)) \<and>
     (\<forall>x \<in> set post. snd x \<le> snd (max_first b xs))"
proof (induction xs arbitrary: b)
  case Nil
  show ?case by (rule exI [of _ "[]"]) simp
next
  case (Cons x xs)
  show ?case
  proof (cases "snd b < snd x")
    case True
    define m where "m = max_first x xs"
    from Cons [of x] obtain pre post where
      s: "x # xs = pre @ m # post"
      and l: "\<forall>y \<in> set pre. snd y < snd m"
      and g: "\<forall>y \<in> set post. snd y \<le> snd m" unfolding m_def by blast
    have "x \<in> set (pre @ m # post)"
      using s by (metis list.set_intros(1))
    then have "snd x \<le> snd m"
      using l g by auto
    with True have 1: "\<forall>y \<in> set (b # pre). snd y < snd m"
      using l by auto
    have 2: "b # x # xs = (b # pre) @ m # post"
      using s by simp
    have 3: "max_first b (x # xs) = m"
      using True by (simp add: m_def)
    show ?thesis
      unfolding 3 using 1 2 g by blast
  next
    case False
    define m where "m = max_first b xs"
    from Cons [of b] obtain pre post where
      s: "b # xs = pre @ m # post"
      and l: "\<forall>y \<in> set pre. snd y < snd m"
      and g: "\<forall>y \<in> set post. snd y \<le> snd m" unfolding m_def by blast
    have 3: "max_first b (x # xs) = m"
      using False by (simp add: m_def)
    have "b \<in> set (pre @ m # post)"
      using s by (metis list.set_intros(1))
    then have bm: "snd b \<le> snd m"
      using l g by auto
    show ?thesis
    proof (cases pre)
      case Nil
      then have "b # x # xs = [] @ m # x # xs" "\<forall>y \<in> set (x # xs). snd y \<le> snd m"
        using s False g by auto
      then show ?thesis
        unfolding 3 by (metis empty_iff list.set(1))
    next
      case (Cons p ps)
      then have "b # x # xs = (b # x # ps) @ m # post"
        using s by simp
      moreover have "\<forall>y \<in> set (b # x # ps). snd y < snd m"
        using l Cons s False by auto
      ultimately show ?thesis
        unfolding 3 using g by blast
    qed
  qed
qed


lemma split_prefix_unique:
  assumes "distinct (A @ h # B)" and "A @ h # B = A' @ h # B'"
  shows "A = A'"
proof -
  have "h \<notin> set A" using assms(1) by auto
  moreover have "distinct (A' @ h # B')" using assms by simp
  then have "h \<notin> set A'" by auto
  ultimately have "takeWhile (\<lambda>x. x \<noteq> h) (A @ h # B) = A"
    "takeWhile (\<lambda>x. x \<noteq> h) (A' @ h # B') = A'"
    by (auto simp: takeWhile_tail)
  with assms(2) show ?thesis by simp
qed

lemma firsts_filter_split:
  assumes "firsts (filter P hs) = A @ h # B"
  shows "\<exists>a b. hs = a @ h # b \<and> P h \<and> (\<forall>x \<in> set a. P x \<longrightarrow> x \<in> set A) \<and>
           (\<forall>x \<in> set b. P x \<longrightarrow> x \<in> set (A @ h # B))"
proof -
  have "h \<in> set (firsts (filter P hs))" using assms by simp
  then have hs: "h \<in> set hs" and P: "P h" by auto
  from split_list_first [OF hs] obtain a b where ab: "hs = a @ h # b" "h \<notin> set a" by blast
  have "firsts (filter P hs) = firsts (filter P a) @
      h # filter (\<lambda>y. y \<notin> set (filter P a)) (filter (\<lambda>y. y \<noteq> h) (firsts (filter P b)))"
    using ab P by (simp add: firsts_append)
  with assms have "A = firsts (filter P a)"
    by (metis distinct_firsts split_prefix_unique)
  moreover have "set (A @ h # B) = set (filter P hs)"
    unfolding assms [symmetric] by simp
  then have "\<forall>x \<in> set b. P x \<longrightarrow> x \<in> set (A @ h # B)"
    using ab(1) by auto
  ultimately have "hs = a @ h # b \<and> P h \<and> (\<forall>x \<in> set a. P x \<longrightarrow> x \<in> set A) \<and>
           (\<forall>x \<in> set b. P x \<longrightarrow> x \<in> set (A @ h # B))"
    using ab(1) P by simp
  then show ?thesis by blast
qed

lemma find_column_None:
  "find_column kws hs = None \<longleftrightarrow> (\<forall>h \<in> set hs. column_score kws h = 0)"
proof -
  have "column_scores kws hs = [] \<longleftrightarrow> (\<forall>h \<in> set hs. column_score kws h = 0)"
    by (auto simp: column_scores_firsts filter_empty_conv simp flip: set_empty2)
  then show ?thesis
    by (cases "column_scores kws hs") (simp_all add: find_column_def)
qed

lemma find_column_Some:
  assumes "find_column kws hs = Some h"
  shows "\<exists>a b. hs = a @ h # b \<and> 0 < column_score kws h \<and>
     (\<forall>x \<in> set a. column_score kws x < column_score kws h) \<and>
     (\<forall>x \<in> set b. column_score kws x \<le> column_score kws h)"
proof -
  define sc where "sc = column_score kws"
  define K where "K = firsts (filter (\<lambda>h. 0 < sc h) hs)"
  from assms obtain x xs where D: "column_scores kws hs = x # xs" and h: "h = fst (max_first x xs)"
    by (auto simp: find_column_def split: list.splits)
  from max_first_split [of x xs] obtain pre post where
    s: "x # xs = pre @ max_first x xs # post"
    and l: "\<forall>y \<in> set pre. snd y < snd (max_first x xs)"
    and g: "\<forall>y \<in> set post. snd y \<le> snd (max_first x xs)" by blast
  have DK: "x # xs = map (\<lambda>h. (h, sc h)) K"
    using D by (simp add: column_scores_firsts K_def sc_def)
  have ent: "\<And>p. p \<in> set (x # xs) \<Longrightarrow> snd p = sc (fst p)"
    unfolding DK by auto
  have m: "snd (max_first x xs) = sc h"
    using ent [of "max_first x xs"] s h by (metis in_set_conv_decomp)
  have K: "K = map fst pre @ h # map fst post"
  proof -
    have "map fst (x # xs) = K" unfolding DK by (simp add: comp_def)
    then show ?thesis using s h by (metis list.simps(9) map_append)
  qed
  have lA: "\<forall>k \<in> set (map fst pre). sc k < sc h"
    using l ent s m by auto
  have gB: "\<forall>k \<in> set (map fst post). sc k \<le> sc h"
    using g ent s m by auto
  from firsts_filter_split [OF K [unfolded K_def]] obtain a b where
    ab: "hs = a @ h # b" and P: "0 < sc h"
    and A: "\<forall>x \<in> set a. 0 < sc x \<longrightarrow> x \<in> set (map fst pre)"
    and B: "\<forall>x \<in> set b. 0 < sc x \<longrightarrow> x \<in> set (map fst pre @ h # map fst post)"
    by blast
  have "\<forall>x \<in> set a. sc x < sc h"
    using A lA P by (metis gr0I)
  moreover have "\<forall>x \<in> set b. sc x \<le> sc h"
  proof
    fix x assume "x \<in> set b"
    show "sc x \<le> sc h"
    proof (cases "0 < sc x")
      case True
      with B \<open>x \<in> set b\<close> have "x \<in> set (map fst pre) \<or> x = h \<or> x \<in> set (map fst post)"
        by auto
      with lA gB show ?thesis by (auto intro: less_imp_le)
    next
      case False
      then show ?thesis by simp
    qed
  qed
  ultimately show ?thesis
    using ab P unfolding sc_def by blast
qed

lemma lower_letters:
  "lower ''ABCDEFGHIJKLMNOPQRSTUVWXYZ'' = ''abcdefghijklmnopqrstuvwxyz'' \<and>
   lower ''abcdefghijklmnopqrstuvwxyz0123456789_ @[`{''
     = ''abcdefghijklmnopqrstuvwxyz0123456789_ @[`{''"
  by (simp add: lower_def)


lemma find_stock_example:
  "find_column [''stock'', ''inventory'', ''quantity'', ''qty'', ''current_stock'',
                ''on_hand'', ''available'', ''balance'', ''units'', ''count'', ''level'',
                ''current_quantity'', ''stock_level'', ''inventory_level'']
     [''Product Name'', ''Category'', '' Stock Qty'', ''Units Sold''] = Some '' Stock Qty''"
  by code_simp


text \<open>The column maps of the example tables are the ones \<open>detect_columns\<close> builds.\<close>

lemma detect_widgets:
  "detect_columns [''name'', ''category'', ''stock'', ''sales'', ''reorder''] = widgets_cols"
proof -
  have "map (\<lambda>(col_type, keywords).
          (col_type, find_column keywords [''name'', ''category'', ''stock'', ''sales'', ''reorder'']))
          column_keywords
        = [(''name'', Some ''name''), (''category'', Some ''category''), (''stock'', Some ''stock''),
           (''sales'', Some ''sales''), (''reorder'', Some ''reorder''), (''price'', None),
           (''supplier'', Some ''name''), (''lead_time'', Some ''reorder''),
           (''max_stock'', Some ''stock''), (''turnover'', None)]"
    by code_simp
  then show ?thesis
    by (simp only: detect_columns_def widgets_cols_def)
qed

lemma detect_priced:
  "detect_columns [''name'', ''category'', ''stock'', ''sales'', ''reorder'', ''price'']
   = priced_cols"
proof -
  have "map (\<lambda>(col_type, keywords).
          (col_type, find_column keywords
             [''name'', ''category'', ''stock'', ''sales'', ''reorder'', ''price'']))
          column_keywords
        = [(''name'', Some ''name''), (''category'', Some ''category''), (''stock'', Some ''stock''),
           (''sales'', Some ''sales''), (''reorder'', Some ''reorder''), (''price'', Some ''price''),
           (''supplier'', Some ''name''), (''lead_time'', Some ''reorder''),
           (''max_stock'', Some ''stock''), (''turnover'', None)]"
    by code_simp
  then show ?thesis
    by (simp only: detect_columns_def priced_cols_def)
qed

section \<open>The Data Cleaner\<close>

lemma in_columns_map_of: "in_columns df c \<longleftrightarrow> map_of (columns df) c \<noteq> None"
  by (simp add: in_columns_def map_of_eq_None_iff)

lemma fabs_cases: "fabs x = NaN \<or> nonneg (fabs x)"
  by (cases x) auto

lemma fabs_id: "\<not> flt x (Fin 0) \<Longrightarrow> fabs x = x"
  by (cases x) (auto simp: flt_def)

lemma abs_if_negative:
  "(if P \<and> list_ex (\<lambda>x. flt x (Fin 0)) ys then map fabs ys else ys) = (if P then map fabs ys else ys)"
  by (auto simp: list_ex_iff fabs_id intro!: map_idI [symmetric])

lemma fillna_no_gap: "\<not> isnull_any xs \<Longrightarrow> fillna v xs = xs"
  by (auto simp: isnull_any_def fillna_def list_ex_iff intro!: map_idI)

lemma num_of_vec [simp]: "map num_of (vec xs) = xs"
  by (simp add: vec_def comp_def)

lemma to_numeric_vec [simp]: "to_numeric parse (vec xs) = vec xs"
  by (simp add: to_numeric_def vec_def)

lemma nonneg_add: "nonneg x \<Longrightarrow> nonneg y \<Longrightarrow> nonneg (fdiv (fadd x y) (Fin 2))"
  by (cases x; cases y) (auto simp: inf_of_sign_def)

lemma median_nonneg:
  assumes "\<forall>x \<in> set xs. x = NaN \<or> nonneg x" and "\<not> isna_all xs"
  shows "nonneg (median xs)"
proof -
  define ys where "ys = sort_key asc_key (filter (\<lambda>x. x \<noteq> NaN) xs)"
  have all: "\<forall>y \<in> set ys. nonneg y"
    using assms(1) by (auto simp: ys_def)
  have ne: "length ys \<noteq> 0"
    using assms(2) by (auto simp: ys_def isna_all_def list_all_iff filter_empty_conv)
  have nth: "\<And>i. i < length ys \<Longrightarrow> nonneg (ys ! i)"
    using all by simp
  have "nonneg (if odd (length ys) then ys ! (length ys div 2)
       else fdiv (fadd (ys ! (length ys div 2 - 1)) (ys ! (length ys div 2))) (Fin 2))"
  proof (cases "odd (length ys)")
    case True
    with ne show ?thesis by (simp add: nth)
  next
    case False
    have "0 < length ys" using ne by simp
    then have "length ys div 2 - 1 < length ys" "length ys div 2 < length ys"
      by (simp_all add: less_imp_diff_less)
    with False show ?thesis by (simp add: nth nonneg_add)
  qed
  with ne show ?thesis
    unfolding median_def Let_def ys_def [symmetric] by simp
qed

lemma cleaned_stock_nonneg: "\<forall>x \<in> set (cleaned_stock_spec parse raw). nonneg x"
proof -
  define xs where "xs = map (\<lambda>c. fabs (num_of c)) (to_numeric parse raw)"
  have xs: "\<forall>x \<in> set xs. x = NaN \<or> nonneg x"
    using fabs_cases by (auto simp: xs_def)
  have "nonneg (if isna_all xs then Fin 0 else median xs)"
    using median_nonneg [OF xs] by auto
  with xs show ?thesis
    by (auto simp: cleaned_stock_spec_def Let_def fillna_def simp flip: xs_def)
qed

lemma nonneg_clean:
  assumes "\<forall>x \<in> set xs. nonneg x"
  shows "\<not> list_ex (\<lambda>x. flt x (Fin 0)) xs" and "\<not> isnull_any xs"
proof -
  have "\<And>x. nonneg x \<Longrightarrow> \<not> flt x (Fin 0) \<and> x \<noteq> NaN"
    by (case_tac x) (auto simp: flt_def)
  with assms show "\<not> list_ex (\<lambda>x. flt x (Fin 0)) xs" and "\<not> isnull_any xs"
    by (auto simp: list_ex_iff isnull_any_def)
qed


lemma setcol_setcol [simp]: "setcol (setcol df c a) c b = setcol df c b"
  by (simp add: setcol_def AList.update_last)

lemma clean_numeric_mapped:
  assumes "mapped_col cols df k = Some c" and "map_of (columns df) c = Some raw"
  shows "clean_numeric parse cols k df = setcol df c (vec
     (let coerced = map num_of (to_numeric parse raw);
          xs = (if k \<in> set [''stock'', ''sales''] then map fabs coerced else coerced)
      in if isnull_any xs then fillna (fill_value k cols (setcol df c (vec xs)) xs) xs else xs))"
  using assms
  by (simp add: clean_numeric_def Let_def abs_if_negative del: set_simps cong: if_cong)

lemma clean_numeric_unmapped:
  "mapped_col cols df k = None \<Longrightarrow> clean_numeric parse cols k df = df"
  by (simp add: clean_numeric_def)

lemma mapped_col_in_columns: "mapped_col cols df k = Some c \<Longrightarrow> in_columns df c"
  by (auto simp: mapped_col_def split: option.splits if_splits)

lemma clean_numeric_other_column:
  assumes "mapped_col cols df k \<noteq> Some c"
  shows "map_of (columns (clean_numeric parse cols k df)) c = map_of (columns df) c"
proof (cases "mapped_col cols df k")
  case None
  then show ?thesis by (simp add: clean_numeric_unmapped)
next
  case (Some c')
  then obtain raw where "map_of (columns df) c' = Some raw"
    using mapped_col_in_columns in_columns_map_of by fastforce
  with Some assms show ?thesis
    by (simp add: clean_numeric_mapped)
qed

lemma stock_step:
  assumes "cols ''stock'' = Some (Some sc)" and "map_of (columns df) sc = Some raw"
  shows "map_of (columns (clean_numeric parse cols ''stock'' df)) sc
         = Some (vec (cleaned_stock_spec parse raw))"
proof -
  have m: "mapped_col cols df ''stock'' = Some sc"
    using assms by (simp add: mapped_col_def in_columns_map_of)
  show ?thesis
    unfolding clean_numeric_mapped [OF m assms(2)]
    by (auto simp: cleaned_stock_spec_def Let_def fill_value_def fillna_no_gap comp_def)
qed

lemma sales_step_keeps_stock:
  assumes "map_of (columns df) sc = Some (vec (cleaned_stock_spec parse raw))"
  shows "map_of (columns (clean_numeric parse cols ''sales'' df)) sc
         = Some (vec (cleaned_stock_spec parse raw))"
proof (cases "mapped_col cols df ''sales'' = Some sc")
  case True
  have "map fabs (cleaned_stock_spec parse raw) = cleaned_stock_spec parse raw"
    using nonneg_clean(1) [OF cleaned_stock_nonneg, of parse raw]
    by (auto simp: list_ex_iff fabs_id intro!: map_idI)
  then show ?thesis
    unfolding clean_numeric_mapped [OF True assms]
    using nonneg_clean(2) [OF cleaned_stock_nonneg, of parse raw]
    by (simp add: Let_def)
next
  case False
  then show ?thesis
    using assms by (simp add: clean_numeric_other_column)
qed


lemma in_columns_clean_numeric [simp]:
  "in_columns (clean_numeric parse cols k df) c = in_columns df c"
proof (cases "mapped_col cols df k")
  case None
  then show ?thesis by (simp add: clean_numeric_unmapped)
next
  case (Some c')
  then have i: "in_columns df c'" by (rule mapped_col_in_columns)
  then obtain raw where "map_of (columns df) c' = Some raw"
    using in_columns_map_of by fastforce
  with Some i show ?thesis
    by (auto simp: clean_numeric_mapped)
qed

lemma reorder_step:
  assumes "cols ''stock'' = Some (Some sc)" and "sc \<noteq> []"
    and "map_of (columns df) sc = Some (vec cleaned)"
    and "cols ''reorder'' = Some (Some rc)" and "map_of (columns df) rc = Some raw_reorder"
  shows "map_of (columns (clean_numeric parse cols ''reorder'' df)) rc
         = Some (vec (fillna (fmul (nanmean cleaned) (Fin (2 / 10)))
                        (map num_of (to_numeric parse raw_reorder))))"
proof -
  define xs where "xs = map num_of (to_numeric parse raw_reorder)"
  have m: "mapped_col cols df ''reorder'' = Some rc"
    using assms(4,5) by (simp add: mapped_col_def in_columns_map_of)
  have "map_of (columns (setcol df rc (vec xs))) sc = Some (vec cleaned)"
    using assms(3,5) by (auto simp: xs_def)
  then have "fill_value ''reorder'' cols (setcol df rc (vec xs)) xs
             = fmul (nanmean cleaned) (Fin (2 / 10))"
    using assms(1,2) by (simp add: fill_value_def cols_get_def del: map_of_setcol)
  then show ?thesis
    unfolding clean_numeric_mapped [OF m assms(5)]
    by (simp add: Let_def fillna_no_gap flip: xs_def)
qed

lemmas cleaner_defs = clean_data_def clean_numeric_def clean_text_def mapped_col_def
  fill_value_def median_def nanmean_def nansum_def isna_all_def isnull_any_def fillna_def
  critical_cols_def dropna_all_def all_missing_def take_rows_def astype_str_def placeholder_def
  to_numeric_def vec_def setcol_def in_columns_def cols_get_def flt_def Let_def

lemma restock_cleaned: "cleaned_stock_spec parse [Num (Fin (- 10)), Num NaN, Num (Fin 20)] = [Fin 10, Fin 15, Fin 20]"
  by (simp add: cleaned_stock_spec_def cleaner_defs)

lemma restock_fill: "fmul (nanmean [Fin 10, Fin 15, Fin 20]) (Fin (2 / 10)) = Fin 3"
  by (simp add: cleaner_defs)

lemma restock_raw: "fmul (nanmean [Fin (- 10), NaN, Fin 20]) (Fin (2 / 10)) = Fin 1"
  by (simp add: cleaner_defs)

lemma restock_run: "map_of (columns (fold (clean_numeric parse widgets_cols) [''stock'', ''sales'', ''reorder''] restock)) ''reorder''
   = Some [Num (Fin 3), Num (Fin 4), Num (Fin 6)]"
  by (simp add: cleaner_defs restock_def widgets_cols_def)


lemma set_update_subset: "set (AList.update c v al) \<subseteq> insert (c, v) (set al)"
  by (induction al) auto

lemma wf_setcol:
  "wf_df df \<Longrightarrow> length v = length (index df) \<Longrightarrow> wf_df (setcol df c v)"
  using set_update_subset [of c v "columns df"]
  by (auto simp: wf_df_def setcol_def distinct_update list_all_iff)

lemma wf_column_length:
  "wf_df df \<Longrightarrow> map_of (columns df) c = Some v \<Longrightarrow> length v = length (index df)"
  by (auto simp: wf_df_def list_all_iff dest!: map_of_SomeD)

lemma length_vec [simp]: "length (vec xs) = length xs"
  by (simp add: vec_def)

lemma length_fillna [simp]: "length (fillna v xs) = length xs"
  by (simp add: fillna_def)

lemma length_to_numeric [simp]: "length (to_numeric parse cs) = length cs"
  by (simp add: to_numeric_def)

lemma clean_numeric_shape:
  assumes "wf_df df"
  shows "wf_df (clean_numeric parse cols k df) \<and> index (clean_numeric parse cols k df) = index df"
proof (cases "mapped_col cols df k")
  case None
  with assms show ?thesis by (simp add: clean_numeric_unmapped)
next
  case (Some c)
  then obtain raw where r: "map_of (columns df) c = Some raw"
    using mapped_col_in_columns in_columns_map_of by fastforce
  have "length raw = length (index df)"
    using assms r by (rule wf_column_length)
  with assms show ?thesis
    unfolding clean_numeric_mapped [OF Some r]
    by (auto simp: Let_def intro!: wf_setcol)
qed

lemma clean_text_unmapped:
  "mapped_col cols df k = None \<Longrightarrow> clean_text fmt cols k df = df"
  by (simp add: clean_text_def)

lemma clean_text_shape:
  assumes "wf_df df"
  shows "wf_df (clean_text fmt cols k df) \<and> index (clean_text fmt cols k df) = index df"
proof (cases "mapped_col cols df k")
  case None
  with assms show ?thesis by (simp add: clean_text_unmapped)
next
  case (Some c)
  then obtain raw where r: "map_of (columns df) c = Some raw"
    using mapped_col_in_columns in_columns_map_of by fastforce
  have "length raw = length (index df)"
    using assms r by (rule wf_column_length)
  with assms Some r show ?thesis
    by (auto simp: clean_text_def intro!: wf_setcol)
qed

lemma in_columns_clean_text [simp]:
  "in_columns (clean_text fmt cols k df) c = in_columns df c"
proof (cases "mapped_col cols df k")
  case None
  then show ?thesis by (simp add: clean_text_unmapped)
next
  case (Some c')
  then have i: "in_columns df c'" by (rule mapped_col_in_columns)
  then obtain raw where "map_of (columns df) c' = Some raw"
    using in_columns_map_of by fastforce
  with Some i show ?thesis
    by (auto simp: clean_text_def)
qed

lemma mapped_col_cong:
  "(\<And>c. in_columns df' c = in_columns df c) \<Longrightarrow> mapped_col cols df' k = mapped_col cols df k"
  by (simp add: mapped_col_def split: option.splits)

lemma clean_text_all_txt:
  assumes "all_txt df c \<or> mapped_col cols df k = Some c"
  shows "all_txt (clean_text fmt cols k df) c"
proof (cases "mapped_col cols df k")
  case None
  with assms show ?thesis by (simp add: clean_text_unmapped)
next
  case (Some c')
  then obtain raw where r: "map_of (columns df) c' = Some raw"
    using mapped_col_in_columns in_columns_map_of by fastforce
  with Some assms show ?thesis
    by (auto simp: clean_text_def all_txt_def list_all_iff Let_def)
qed

lemma numeric_fold_shape:
  "wf_df df \<Longrightarrow> wf_df (fold (clean_numeric parse cols) ks df) \<and>
     index (fold (clean_numeric parse cols) ks df) = index df \<and>
     (\<forall>c. in_columns (fold (clean_numeric parse cols) ks df) c = in_columns df c)"
  by (induction ks arbitrary: df) (simp_all add: clean_numeric_shape)

lemma text_fold_shape:
  "wf_df df \<Longrightarrow> wf_df (fold (clean_text fmt cols) ks df) \<and>
     index (fold (clean_text fmt cols) ks df) = index df \<and>
     (\<forall>c. in_columns (fold (clean_text fmt cols) ks df) c = in_columns df c)"
  by (induction ks arbitrary: df) (simp_all add: clean_text_shape)

lemma text_fold_all_txt:
  "all_txt df c \<Longrightarrow> all_txt (fold (clean_text fmt cols) ks df) c"
  by (induction ks arbitrary: df) (simp_all add: clean_text_all_txt)

lemma take_all_rows: "index (take_rows df [0..<length (index df)]) = index df"
  by (simp add: take_rows_def map_nth)

lemma clean_data_keeps_every_row:
  assumes "wf_df df" and "cols ''name'' = Some (Some cn)" and "cn \<noteq> []" and "in_columns df cn"
  shows "index (clean_data parse fmt df cols) = index df"
proof -
  define df1 where "df1 = fold (clean_numeric parse cols)
                  [''stock'', ''sales'', ''reorder'', ''price'', ''turnover''] df"
  define df2 where "df2 = fold (clean_text fmt cols) [''name'', ''category'', ''supplier''] df1"
  have s1: "wf_df df1" "index df1 = index df" "in_columns df1 cn"
    using numeric_fold_shape [OF assms(1), of parse cols
        "[''stock'', ''sales'', ''reorder'', ''price'', ''turnover'']"] assms(4)
    unfolding df1_def by blast+
  then have m: "mapped_col cols df1 ''name'' = Some cn"
    using assms(2) by (simp add: mapped_col_def)
  have s2: "wf_df df2" "index df2 = index df" "in_columns df2 cn"
    using text_fold_shape [OF s1(1), of fmt cols "[''name'', ''category'', ''supplier'']"] s1
    unfolding df2_def by auto
  have "all_txt (clean_text fmt cols ''name'' df1) cn"
    using m by (simp add: clean_text_all_txt)
  then have "all_txt (fold (clean_text fmt cols) [''category'', ''supplier'']
                      (clean_text fmt cols ''name'' df1)) cn"
    by (rule text_fold_all_txt)
  then have "all_txt df2 cn"
    by (simp add: df2_def)
  then obtain v where v: "map_of (columns df2) cn = Some v" "list_all (\<lambda>x. \<not> is_num x) v"
    by (auto simp: all_txt_def split: option.splits)
  have lv: "length v = length (index df2)"
    using s2(1) v(1) by (rule wf_column_length)
  have cn: "cn \<in> set (critical_cols cols df2)"
    using assms(2,3) s2(3) by (simp add: critical_cols_def cols_get_def)
  have "\<not> all_missing df2 (critical_cols cols df2) i" if "i < length (index df2)" for i
  proof -
    have "v ! i \<in> set v" using that lv by simp
    then have "v ! i \<noteq> Num NaN"
      using v(2) by (auto simp: list_all_iff)
    with cn v(1) show ?thesis
      unfolding all_missing_def list_all_iff by (intro notI) (drule bspec [of _ _ cn], simp_all)
  qed
  then have "filter (\<lambda>i. \<not> all_missing df2 (critical_cols cols df2) i) [0..<length (index df2)]
             = [0..<length (index df2)]"
    by (simp add: filter_id_conv)
  then have "index (dropna_all df2 (critical_cols cols df2)) = index df2"
    by (simp add: dropna_all_def take_all_rows)
  moreover have "clean_data parse fmt df cols
      = (if critical_cols cols df2 \<noteq> [] then dropna_all df2 (critical_cols cols df2) else df2)"
    unfolding clean_data_def Let_def df1_def df2_def ..
  ultimately show ?thesis
    using s2(2) by simp
qed


text \<open>
  C2. The cleaner is claimed to drop the rows in which name, stock and sales are all
  missing in the raw table. Row 1 of \<open>gappy\<close> is such a row; the cleaned table still
  has it, with the placeholder name and the filled stock and sales: \<open>dropna\<close> runs
  after the fills, when no critical cell is missing any more.
\<close>

theorem c2_row_without_signal_kept:
  "no_signal_rows gappy widgets_cols = [1] \<and>
   clean_data parse fmt gappy widgets_cols = gappy_cleaned \<and>
   index gappy_cleaned = [0, 1]"
  by (simp add: cleaner_defs no_signal_rows_def raw_missing_def gappy_def gappy_cleaned_def
      widgets_cols_def strip_def is_space_def)




section \<open>The Aggregator\<close>

lemmas agg_defs = get_fast_slow_movers_def format_movers_def format_mover_def nlargest_def
  nsmallest_def quantile_def lerp_def rounded_def row_item_def row_get_def mapped_item_def
  py_int_def py_float_def py_round_def round_half_even_def astype_str_def
  getnamed_def df_item_def cols_item_def num_col_def fsub_def Let_def

subsection \<open>Filtering by status\<close>

lemma rows_equal_subset:
  "rows_equal df key val rows = Inr rows' \<Longrightarrow> set rows' \<subseteq> set rows"
  by (auto simp: rows_equal_def ebind_eq_Inr)

lemma status_mapping_None:
  "st \<notin> {''Critical'', ''Low Stock'', ''Healthy'', ''Excess''} \<Longrightarrow> status_mapping st = None"
  by (simp add: status_mapping_def)

text \<open>
  C10. On a well-formed table with a \<open>Stock_Status\<close> column, a status argument that
  is not \<open>All\<close>, not a value of that column and not one of the four legacy labels
  changes nothing: \<open>filter_products\<close> returns what it returns without a status
  argument, be it a list or an exception.
\<close>

theorem c10_unrecognised_status_ignored:
  assumes "wf_df df" and "df_item df (Some ''Stock_Status'') = Inr v"
    and "status \<noteq> ''All''" and "Txt status \<notin> set v"
    and "status \<notin> {''Critical'', ''Low Stock'', ''Healthy'', ''Excess''}"
  shows "filter_products re fmt df cols category (Some status) search abc_class
         = filter_products re fmt df cols category None search abc_class"
proof -
  note item = assms(2) and absent = assms(4)
  have len: "length v = length (index df)"
    using assms(1) item by (rule wf_df_item_length)
  have step: "(if status \<noteq> [] \<and> status \<notin> set [''All'']
         then ebind (df_item df (Some ''Stock_Status'')) (\<lambda>v.
                if list_ex (\<lambda>i. v ! i = Txt status) rows1
                then rows_equal df (Some ''Stock_Status'') status rows1
                else (case status_mapping status of
                        None \<Rightarrow> Inr rows1
                      | Some mapped_status \<Rightarrow>
                          if mapped_status \<noteq> []
                          then rows_equal df (Some ''Stock_Status'') mapped_status rows1
                          else Inr rows1))
         else Inr rows1) = Inr rows1"
    if "set rows1 \<subseteq> {0..<length (index df)}" for rows1
  proof -
    have "\<not> list_ex (\<lambda>i. v ! i = Txt status) rows1"
      using that len absent by (auto simp: list_ex_iff) (metis nth_mem subsetD atLeastLessThan_iff)
    then show ?thesis
      using item status_mapping_None [OF assms(5)] by simp
  qed
  define rows1 where "rows1 = (case category of
               None \<Rightarrow> Inr [0..<length (index df)]
             | Some cat \<Rightarrow>
                 if cat \<noteq> [] \<and> cat \<notin> set [''All Categories'', ''All'']
                 then ebind (cols_item cols ''category'') (\<lambda>c. rows_equal df c cat [0..<length (index df)])
                 else Inr [0..<length (index df)])"
  show ?thesis
  proof (cases rows1)
    case (Inl e)
    then show ?thesis
      unfolding filter_products_def Let_def rows1_def [symmetric] by simp
  next
    case (Inr rows)
    then have "set rows \<subseteq> {0..<length (index df)}"
      by (auto simp: rows1_def ebind_eq_Inr split: option.splits if_splits
          dest!: rows_equal_subset)
    from step [OF this] Inr show ?thesis
      unfolding filter_products_def Let_def rows1_def [symmetric] by simp
  qed
qed


lemma gizmo_unfiltered:
  "filter_products no_regex no_format dead_stock_augmented
     (priced_cols(''turnover'' \<mapsto> Some ''Final_Turnover'')) None None None None = Inr [gizmo]"
  by (simp add: filter_products_def format_product_def agg_defs dead_stock_augmented_def
      dead_stock_def priced_cols_def gizmo_def)

theorem c10_unrecognised_status_ignored_witness:
  "wf_df dead_stock_augmented \<and>
   df_item dead_stock_augmented (Some ''Stock_Status'') = Inr [Txt ''LOW''] \<and>
   ''Bogus'' \<noteq> ''All'' \<and> Txt ''Bogus'' \<notin> set [Txt ''LOW''] \<and>
   ''Bogus'' \<notin> {''Critical'', ''Low Stock'', ''Healthy'', ''Excess''} \<and>
   filter_products no_regex no_format dead_stock_augmented
     (priced_cols(''turnover'' \<mapsto> Some ''Final_Turnover'')) None (Some ''Bogus'') None None
     = Inr [gizmo]"
proof -
  have w: "wf_df dead_stock_augmented"
    by (simp add: wf_df_def dead_stock_augmented_def dead_stock_def)
  have i: "df_item dead_stock_augmented (Some ''Stock_Status'') = Inr [Txt ''LOW'']"
    by (simp add: df_item_def dead_stock_augmented_def dead_stock_def)
  have "filter_products no_regex no_format dead_stock_augmented
     (priced_cols(''turnover'' \<mapsto> Some ''Final_Turnover'')) None (Some ''Bogus'') None None
     = filter_products no_regex no_format dead_stock_augmented
     (priced_cols(''turnover'' \<mapsto> Some ''Final_Turnover'')) None None None None"
    by (rule c10_unrecognised_status_ignored [OF w i]) simp_all
  with w i gizmo_unfiltered show ?thesis
    by simp
qed

subsection \<open>Fast and slow movers\<close>

lemma desc_key_le: "x \<noteq> NaN \<Longrightarrow> y \<noteq> NaN \<Longrightarrow> desc_key x \<le> desc_key y \<longleftrightarrow> fle y x"
  by (cases x; cases y) auto

lemma asc_key_le: "x \<noteq> NaN \<Longrightarrow> y \<noteq> NaN \<Longrightarrow> asc_key x \<le> asc_key y \<longleftrightarrow> fle x y"
  by (cases x; cases y) auto

lemma fle_not_NaN: "fle x y \<Longrightarrow> x \<noteq> NaN \<and> y \<noteq> NaN"
  by (cases x; cases y) auto

lemma take_sort_key:
  fixes k :: "'a \<Rightarrow> 'b::linorder"
  assumes "R = take n (sort_key k rows)"
  shows "set R \<subseteq> set rows" and "distinct rows \<Longrightarrow> distinct R"
    and "length R = min n (length rows)"
    and "\<forall>i \<in> set R. \<forall>j \<in> set rows - set R. k i \<le> k j"
    and "sorted (map k R)"
proof -
  define ys where "ys = sort_key k rows"
  have R: "R = take n ys" using assms by (simp add: ys_def)
  show "set R \<subseteq> set rows"
    unfolding R using set_take_subset [of n ys] by (simp add: ys_def)
  show "distinct rows \<Longrightarrow> distinct R"
    unfolding R by (simp add: ys_def)
  show "length R = min n (length rows)"
    unfolding R by (simp add: ys_def min.commute)
  have "sorted (map k (take n ys @ drop n ys))"
    by (simp add: ys_def)
  then have s: "sorted (map k (take n ys))" and c: "\<forall>x \<in> set (take n ys). \<forall>y \<in> set (drop n ys). k x \<le> k y"
    unfolding map_append sorted_append by auto
  show "sorted (map k R)" unfolding R by (rule s)
  have "set rows = set (take n ys) \<union> set (drop n ys)"
    by (metis append_take_drop_id set_append set_sort ys_def)
  with c show "\<forall>i \<in> set R. \<forall>j \<in> set rows - set R. k i \<le> k j"
    unfolding R by auto
qed

lemma take_sort_key_short:
  fixes k :: "'a \<Rightarrow> 'b::linorder"
  assumes "length rows \<le> n"
  shows "set (take n (sort_key k rows)) = set rows"
    and "length (take n (sort_key k rows)) = length rows"
    and "distinct rows \<Longrightarrow> distinct (take n (sort_key k rows))"
  using assms by simp_all


lemma distinct_fast_cohort [simp]: "distinct (fast_cohort t)"
  by (simp add: fast_cohort_def)

lemma distinct_slow_cohort [simp]: "distinct (slow_cohort t)"
  by (simp add: slow_cohort_def)

lemma fast_cohort_present: "i \<in> set (fast_cohort t) \<Longrightarrow> t ! i \<noteq> NaN"
  by (auto simp: fast_cohort_def dest: fle_not_NaN)

lemma slow_cohort_present: "i \<in> set (slow_cohort t) \<Longrightarrow> t ! i \<noteq> NaN"
  by (auto simp: slow_cohort_def dest: fle_not_NaN)

lemma nlargest_limited:
  assumes "distinct cohort" and "\<forall>i \<in> set cohort. vals ! i \<noteq> NaN"
  shows "limited_to_top n vals cohort (nlargest n vals cohort)"
proof -
  note p = take_sort_key [OF nlargest_def [of n vals cohort]]
  have "\<forall>i \<in> set (nlargest n vals cohort). \<forall>j \<in> set cohort - set (nlargest n vals cohort).
          fle (vals ! j) (vals ! i)"
    using p(1) p(4) assms(2) by (auto simp: desc_key_le [symmetric] subset_iff)
  with p(1) p(2) [OF assms(1)] p(3) show ?thesis
    by (simp add: limited_to_top_def)
qed

lemma nsmallest_limited:
  assumes "distinct cohort" and "\<forall>i \<in> set cohort. vals ! i \<noteq> NaN"
  shows "limited_to_bottom n vals cohort (nsmallest n vals cohort)"
proof -
  note p = take_sort_key [OF nsmallest_def [of n vals cohort]]
  have "\<forall>i \<in> set (nsmallest n vals cohort). \<forall>j \<in> set cohort - set (nsmallest n vals cohort).
          fle (vals ! i) (vals ! j)"
    using p(1) p(4) assms(2) by (auto simp: asc_key_le [symmetric] subset_iff)
  with p(1) p(2) [OF assms(1)] p(3) show ?thesis
    by (simp add: limited_to_bottom_def)
qed

lemma resort_limited_top:
  assumes "limited_to_top n vals cohort rows" and "n \<le> m"
  shows "limited_to_top n vals cohort (nlargest m score rows)"
proof -
  have "length rows \<le> m"
    using assms by (simp add: limited_to_top_def)
  from take_sort_key_short [OF this, of "\<lambda>i. desc_key (score ! i)"] assms(1)
  show ?thesis
    by (simp add: limited_to_top_def nlargest_def)
qed

lemma resort_limited_bottom:
  assumes "limited_to_bottom n vals cohort rows" and "n \<le> m"
  shows "limited_to_bottom n vals cohort (nlargest m score rows)"
proof -
  have "length rows \<le> m"
    using assms by (simp add: limited_to_bottom_def)
  from take_sort_key_short [OF this, of "\<lambda>i. desc_key (score ! i)"] assms(1)
  show ?thesis
    by (simp add: limited_to_bottom_def nlargest_def)
qed

lemma nlargest_sorted: "sorted (map (\<lambda>i. desc_key (score ! i)) (nlargest n score rows))"
  using take_sort_key(5) [OF nlargest_def [of n score rows]] .

lemma format_movers_rows:
  assumes "format_movers fmt df cols rows = Inr out"
  shows "\<exists>reported. emap (format_mover fmt df cols) reported = Inr out \<and>
           by_descending_score df reported \<and>
           (\<exists>score. reported = nlargest 10 score rows)"
proof (cases "rows = []")
  case True
  with assms have "emap (format_mover fmt df cols) [] = Inr out"
    by (simp add: format_movers_def)
  then show ?thesis
    using True by (intro exI [of _ "[]"]) (simp add: by_descending_score_def nlargest_def)
next
  case False
  with assms obtain score where s: "getnamed df ''Priority_Score'' = Inr score"
    and e: "emap (format_mover fmt df cols) (nlargest 10 score rows) = Inr out"
    by (auto simp: format_movers_def ebind_eq_Inr)
  show ?thesis
    using s e nlargest_sorted [of score 10 rows]
    by (intro exI [of _ "nlargest 10 score rows"]) (auto simp: by_descending_score_def)
qed

lemma two_products_movers_run:
  "get_fast_slow_movers no_format two_products_augmented
     (priced_cols(''turnover'' \<mapsto> Some ''Final_Turnover'')) = Inr two_products_movers"
  by (simp add: agg_defs two_products_augmented_def two_products_def priced_cols_def
      two_products_movers_def)


lemma shelf_init:
  "init no_numerals shelf priced_cols
   = Inr (shelf_augmented, priced_cols(''turnover'' \<mapsto> Some ''Final_Turnover''))"
  by (simp add: eval_defs fillna_zero_def retype_numeric_def truthy_def
      cols_get_default_def fillna_cells_def shelf_def shelf_augmented_def priced_cols_def)

lemma shelf_fast_names:
  "fast_names (get_fast_slow_movers no_format shelf_augmented
     (priced_cols(''turnover'' \<mapsto> Some ''Final_Turnover'')))
   = Inr [''P0'', ''P1'', ''P2'', ''P3'', ''P4'', ''P5'', ''P6'', ''P7'', ''P8'', ''P9'']"
  by (simp add: fast_names_def agg_defs shelf_augmented_def shelf_def priced_cols_def)

lemma shelf_columns:
  "getnamed shelf_augmented ''Final_Turnover''
   = Inr [Fin 12, Fin 12, Fin 12, Fin 12, Fin 12, Fin 12, Fin 12, Fin 12, Fin 12, Fin 12, Fin 12] \<and>
   getnamed shelf_augmented ''Priority_Score''
   = Inr [Fin 51, Fin 51, Fin 51, Fin 51, Fin 51, Fin 51, Fin 31, Fin 31, Fin 31, Fin 31, Fin 54]"
  by (simp add: getnamed_def df_item_def num_col_def shelf_augmented_def shelf_def)

lemma shelf_cohort:
  "fast_cohort [Fin 12, Fin 12, Fin 12, Fin 12, Fin 12, Fin 12, Fin 12, Fin 12, Fin 12, Fin 12, Fin 12]
   = [0, 1, 2, 3, 4, 5, 6, 7, 8, 9, 10]"
  by (simp add: fast_cohort_def quantile_def lerp_def fsub_def Let_def upt_conv_Cons)

lemma shelf_by_score:
  "nlargest 10 [Fin 51, Fin 51, Fin 51, Fin 51, Fin 51, Fin 51, Fin 31, Fin 31, Fin 31, Fin 31, Fin 54]
     [0, 1, 2, 3, 4, 5, 6, 7, 8, 9, 10] = [10, 0, 1, 2, 3, 4, 5, 6, 7, 8]"
  by (simp add: nlargest_def)

lemma shelf_fast_rows:
  "fast_rows [Fin 12, Fin 12, Fin 12, Fin 12, Fin 12, Fin 12, Fin 12, Fin 12, Fin 12, Fin 12, Fin 12]
     [Fin 51, Fin 51, Fin 51, Fin 51, Fin 51, Fin 51, Fin 31, Fin 31, Fin 31, Fin 31, Fin 54]
   = [0, 1, 2, 3, 4, 5, 6, 7, 8, 9]"
  by (simp add: fast_rows_def shelf_cohort) (simp add: nlargest_def)

text \<open>
  C8, as stated: the reported fast list is the fast cohort limited to its top 10 rows by
  priority score. All eleven products of \<open>shelf\<close> are in the fast cohort; its top 10
  by priority score begin with the last product (row 10, score 54), but the reported
  list is the products of the rows 0 to 9.
\<close>

theorem c8_fast_list_by_priority_counterexample:
  "init no_numerals shelf priced_cols
     = Inr (shelf_augmented, priced_cols(''turnover'' \<mapsto> Some ''Final_Turnover'')) \<and>
   getnamed shelf_augmented ''Final_Turnover''
     = Inr [Fin 12, Fin 12, Fin 12, Fin 12, Fin 12, Fin 12, Fin 12, Fin 12, Fin 12, Fin 12, Fin 12] \<and>
   getnamed shelf_augmented ''Priority_Score''
     = Inr [Fin 51, Fin 51, Fin 51, Fin 51, Fin 51, Fin 51, Fin 31, Fin 31, Fin 31, Fin 31, Fin 54] \<and>
   fast_cohort [Fin 12, Fin 12, Fin 12, Fin 12, Fin 12, Fin 12, Fin 12, Fin 12, Fin 12, Fin 12, Fin 12]
     = [0, 1, 2, 3, 4, 5, 6, 7, 8, 9, 10] \<and>
   nlargest 10 [Fin 51, Fin 51, Fin 51, Fin 51, Fin 51, Fin 51, Fin 31, Fin 31, Fin 31, Fin 31, Fin 54]
     [0, 1, 2, 3, 4, 5, 6, 7, 8, 9, 10] = [10, 0, 1, 2, 3, 4, 5, 6, 7, 8] \<and>
   fast_rows [Fin 12, Fin 12, Fin 12, Fin 12, Fin 12, Fin 12, Fin 12, Fin 12, Fin 12, Fin 12, Fin 12]
     [Fin 51, Fin 51, Fin 51, Fin 51, Fin 51, Fin 51, Fin 31, Fin 31, Fin 31, Fin 31, Fin 54]
     = [0, 1, 2, 3, 4, 5, 6, 7, 8, 9] \<and>
   fast_names (get_fast_slow_movers no_format shelf_augmented
     (priced_cols(''turnover'' \<mapsto> Some ''Final_Turnover'')))
     = Inr [''P0'', ''P1'', ''P2'', ''P3'', ''P4'', ''P5'', ''P6'', ''P7'', ''P8'', ''P9'']"
  using shelf_init shelf_columns shelf_cohort shelf_by_score shelf_fast_rows shelf_fast_names
  by simp

text \<open>
  C8, amended: the fast cohort is the rows with turnover at or above the 75th percentile
  and the slow cohort the rows at or below the 25th; the counts are those of the
  cohorts. The reported fast list is the cohort limited to its 10 rows of highest
  turnover, the reported slow list the cohort limited to its 10 rows of lowest turnover,
  and both are listed by descending priority score.
\<close>

theorem c8_movers_limited_by_turnover:
  assumes "wf_df df" and "get_fast_slow_movers fmt df cols = Inr m"
  shows "\<exists>turnover fast slow.
     getnamed df ''Final_Turnover'' = Inr turnover \<and>
     fastMoversCount m = length (fast_cohort turnover) \<and>
     slowMoversCount m = length (slow_cohort turnover) \<and>
     emap (format_mover fmt df cols) fast = Inr (fastMovers m) \<and>
     emap (format_mover fmt df cols) slow = Inr (slowMovers m) \<and>
     limited_to_top 10 turnover (fast_cohort turnover) fast \<and>
     limited_to_bottom 10 turnover (slow_cohort turnover) slow \<and>
     by_descending_score df fast \<and> by_descending_score df slow"
proof -
  from assms(2) obtain turnover f s where
    t: "getnamed df ''Final_Turnover'' = Inr turnover"
    and f: "format_movers fmt df cols (nlargest 10 turnover
              (filter (\<lambda>i. fle (quantile (3 / 4) turnover) (turnover ! i)) [0..<length (index df)]))
            = Inr f"
    and s: "format_movers fmt df cols (nsmallest 10 turnover
              (filter (\<lambda>i. fle (turnover ! i) (quantile (1 / 4) turnover)) [0..<length (index df)]))
            = Inr s"
    and m: "m = \<lparr> fastMovers = f, slowMovers = s,
           fastMoversCount = length (filter (\<lambda>i. fle (quantile (3 / 4) turnover) (turnover ! i))
                                       [0..<length (index df)]),
           slowMoversCount = length (filter (\<lambda>i. fle (turnover ! i) (quantile (1 / 4) turnover))
                                       [0..<length (index df)]),
           fastMoverThreshold = py_round 2 (quantile (3 / 4) turnover),
           slowMoverThreshold = py_round 2 (quantile (1 / 4) turnover) \<rparr>"
    unfolding get_fast_slow_movers_def Let_def by (auto simp: ebind_eq_Inr)
  have len: "length turnover = length (index df)"
    using assms(1) t by (rule wf_getnamed_length)
  have fc: "filter (\<lambda>i. fle (quantile (3 / 4) turnover) (turnover ! i)) [0..<length (index df)]
            = fast_cohort turnover"
    and sc: "filter (\<lambda>i. fle (turnover ! i) (quantile (1 / 4) turnover)) [0..<length (index df)]
            = slow_cohort turnover"
    by (simp_all add: fast_cohort_def slow_cohort_def len)
  from format_movers_rows [OF f [unfolded fc]] obtain fast score1 where
    fast: "emap (format_mover fmt df cols) fast = Inr f" "by_descending_score df fast"
      "fast = nlargest 10 score1 (nlargest 10 turnover (fast_cohort turnover))" by blast
  from format_movers_rows [OF s [unfolded sc]] obtain slow score2 where
    slow: "emap (format_mover fmt df cols) slow = Inr s" "by_descending_score df slow"
      "slow = nlargest 10 score2 (nsmallest 10 turnover (slow_cohort turnover))" by blast
  have "limited_to_top 10 turnover (fast_cohort turnover) fast"
    unfolding fast(3)
    by (intro resort_limited_top nlargest_limited) (simp_all add: fast_cohort_present)
  moreover have "limited_to_bottom 10 turnover (slow_cohort turnover) slow"
    unfolding slow(3)
    by (intro resort_limited_bottom nsmallest_limited) (simp_all add: slow_cohort_present)
  ultimately show ?thesis
    using t fast(1,2) slow(1,2) by (auto simp: m fc sc)
qed


theorem c8_movers_limited_by_turnover_witness:
  "wf_df two_products_augmented \<and>
   get_fast_slow_movers no_format two_products_augmented
     (priced_cols(''turnover'' \<mapsto> Some ''Final_Turnover'')) = Inr two_products_movers \<and>
   (\<exists>fast slow.
      emap (format_mover no_format two_products_augmented
              (priced_cols(''turnover'' \<mapsto> Some ''Final_Turnover''))) fast
        = Inr (fastMovers two_products_movers) \<and>
      emap (format_mover no_format two_products_augmented
              (priced_cols(''turnover'' \<mapsto> Some ''Final_Turnover''))) slow
        = Inr (slowMovers two_products_movers) \<and>
      limited_to_top 10 [Fin 6, Fin 6] (fast_cohort [Fin 6, Fin 6]) fast \<and>
      limited_to_bottom 10 [Fin 6, Fin 6] (slow_cohort [Fin 6, Fin 6]) slow \<and>
      by_descending_score two_products_augmented fast \<and>
      by_descending_score two_products_augmented slow)"
proof -
  have w: "wf_df two_products_augmented"
    by (simp add: wf_df_def two_products_augmented_def two_products_def)
  have t: "getnamed two_products_augmented ''Final_Turnover'' = Inr [Fin 6, Fin 6]"
    by (simp add: getnamed_def df_item_def num_col_def two_products_augmented_def
        two_products_def)
  from c8_movers_limited_by_turnover [OF w two_products_movers_run] t w two_products_movers_run
  show ?thesis
    by auto
qed

end
